theory Spec2Isabelle
  imports Main
begin

section \<open>The relational store\<close>

text \<open>
  \<^verbatim>\<open>main.py\<close> keeps four tables in one SQLite file. Every table has an
  \<^verbatim>\<open>INTEGER PRIMARY KEY AUTOINCREMENT\<close> column \<^verbatim>\<open>id\<close> in front, so a row, the
  tuple that \<^verbatim>\<open>fetchone\<close> and \<^verbatim>\<open>fetchall\<close> hand back, is a pair of the key and the
  remaining columns in the order of \<^verbatim>\<open>CREATE TABLE\<close>. A column declared without
  \<^verbatim>\<open>NOT NULL\<close> holds an optional value (\<open>None\<close> is SQL's \<^verbatim>\<open>NULL\<close>).

  A table is the list of its rows in the order \<^verbatim>\<open>SELECT *\<close> walks them, the counter
  that SQLite keeps per \<^verbatim>\<open>AUTOINCREMENT\<close> table in \<^verbatim>\<open>sqlite_sequence\<close>, and the
  statements that have been executed on it, oldest first. The last is what makes a
  write observable that stores the value a column already has.

  Integers are Python's unbounded \<^verbatim>\<open>int\<close>. An SQLite \<^verbatim>\<open>INTEGER\<close> is a signed 64-bit
  number: \<^verbatim>\<open>cursor.execute\<close> raises \<^verbatim>\<open>OverflowError\<close> for a parameter outside that
  range, before the statement runs. An \<^verbatim>\<open>AUTOINCREMENT\<close> table that has held the largest
  signed 64-bit key takes no further row: the \<^verbatim>\<open>INSERT\<close> raises \<^verbatim>\<open>OperationalError\<close>.
\<close>

datatype ('c, 'a) statement =
    INSERT_INTO 'c
  | SELECT_FROM
  | SELECT_FROM_WHERE_id int
  | UPDATE_SET "'a list" int
  | DELETE_FROM_WHERE_id int

record ('c, 'a) table =
  rows :: "(int \<times> 'c) list"
  sqlite_sequence :: int
  executed :: "('c, 'a) statement list"

type_synonym polls_columns = "string \<times> int option"
  \<comment> \<open>\<^verbatim>\<open>question TEXT NOT NULL, likes INTEGER DEFAULT 0\<close>\<close>
type_synonym comments_columns = "int option \<times> string option"
  \<comment> \<open>\<^verbatim>\<open>poll_id INTEGER, content TEXT\<close>\<close>
type_synonym teams_columns = "string \<times> string \<times> int option"
  \<comment> \<open>\<^verbatim>\<open>team_name TEXT NOT NULL, city TEXT NOT NULL, championships INTEGER DEFAULT 0\<close>\<close>
type_synonym players_columns = "string \<times> int \<times> string \<times> int option"
  \<comment> \<open>\<^verbatim>\<open>name TEXT NOT NULL, jersey_number INTEGER NOT NULL, position TEXT NOT NULL, team_id INTEGER\<close>\<close>

text \<open>One assignment \<^verbatim>\<open>column = ?\<close> of a \<^verbatim>\<open>SET\<close> list, per table, with the column it names.\<close>

datatype polls_set = SET_question string | SET_likes "int option"

datatype comments_set = SET_poll_id "int option" | SET_content "string option"

datatype teams_set = SET_team_name string | SET_city string | SET_championships "int option"

datatype players_set =
  SET_name string | SET_jersey_number int | SET_position string | SET_team_id "int option"

record db =
  polls :: "(polls_columns, polls_set) table"
  comments :: "(comments_columns, comments_set) table"
  teams :: "(teams_columns, teams_set) table"
  players :: "(players_columns, players_set) table"

definition empty_table :: "('c, 'a) table" where
  "empty_table = \<lparr>rows = [], sqlite_sequence = 0, executed = []\<rparr>"

definition init_db :: db where
  \<comment> \<open>the four \<^verbatim>\<open>CREATE TABLE IF NOT EXISTS\<close> statements, run on a fresh database file\<close>
  "init_db = \<lparr>polls = empty_table, comments = empty_table,
              teams = empty_table, players = empty_table\<rparr>"

fun polls_assign :: "polls_set \<Rightarrow> polls_columns \<Rightarrow> polls_columns" where
  "polls_assign (SET_question v) (question, likes) = (v, likes)"
| "polls_assign (SET_likes v) (question, likes) = (question, v)"


fun comments_assign :: "comments_set \<Rightarrow> comments_columns \<Rightarrow> comments_columns" where
  "comments_assign (SET_poll_id v) (poll_id, content) = (v, content)"
| "comments_assign (SET_content v) (poll_id, content) = (poll_id, v)"


fun teams_assign :: "teams_set \<Rightarrow> teams_columns \<Rightarrow> teams_columns" where
  "teams_assign (SET_team_name v) (team_name, city, championships) = (v, city, championships)"
| "teams_assign (SET_city v) (team_name, city, championships) = (team_name, v, championships)"
| "teams_assign (SET_championships v) (team_name, city, championships) = (team_name, city, v)"


fun players_assign :: "players_set \<Rightarrow> players_columns \<Rightarrow> players_columns" where
  "players_assign (SET_name v) (name, jersey_number, position, team_id) =
     (v, jersey_number, position, team_id)"
| "players_assign (SET_jersey_number v) (name, jersey_number, position, team_id) =
     (name, v, position, team_id)"
| "players_assign (SET_position v) (name, jersey_number, position, team_id) =
     (name, jersey_number, v, team_id)"
| "players_assign (SET_team_id v) (name, jersey_number, position, team_id) =
     (name, jersey_number, position, v)"



definition comments_fields :: "string list" where
  "comments_fields = [''poll_id'', ''content'']"



subsection \<open>Integer parameters\<close>

definition sqlite_int :: "int \<Rightarrow> bool" where
  \<comment> \<open>the values an SQLite \<^verbatim>\<open>INTEGER\<close> parameter can take\<close>
  "sqlite_int i \<longleftrightarrow> - (2 ^ 63) \<le> i \<and> i < 2 ^ 63"

definition nullable :: "int option \<Rightarrow> int list" where
  "nullable v = (case v of None \<Rightarrow> [] | Some i \<Rightarrow> [i])"

text \<open>
  The integers a statement binds to its placeholders: those among the values of an
  \<^verbatim>\<open>INSERT\<close>, those among the values of a \<^verbatim>\<open>SET\<close> list, and the key of a \<^verbatim>\<open>WHERE id = ?\<close>.
  \<^verbatim>\<open>INSERT INTO polls (question)\<close> binds no integer: \<^verbatim>\<open>likes\<close> is the column's default.
\<close>

fun polls_inserted :: "polls_columns \<Rightarrow> int list" where
  "polls_inserted (question, likes) = []"

fun polls_assigned :: "polls_set \<Rightarrow> int list" where
  "polls_assigned (SET_question v) = []"
| "polls_assigned (SET_likes v) = nullable v"

fun comments_inserted :: "comments_columns \<Rightarrow> int list" where
  "comments_inserted (poll_id, content) = nullable poll_id"

fun comments_assigned :: "comments_set \<Rightarrow> int list" where
  "comments_assigned (SET_poll_id v) = nullable v"
| "comments_assigned (SET_content v) = []"

fun teams_inserted :: "teams_columns \<Rightarrow> int list" where
  "teams_inserted (team_name, city, championships) = nullable championships"

fun teams_assigned :: "teams_set \<Rightarrow> int list" where
  "teams_assigned (SET_team_name v) = []"
| "teams_assigned (SET_city v) = []"
| "teams_assigned (SET_championships v) = nullable v"

fun players_inserted :: "players_columns \<Rightarrow> int list" where
  "players_inserted (name, jersey_number, position, team_id) = jersey_number # nullable team_id"

fun players_assigned :: "players_set \<Rightarrow> int list" where
  "players_assigned (SET_name v) = []"
| "players_assigned (SET_jersey_number v) = [v]"
| "players_assigned (SET_position v) = []"
| "players_assigned (SET_team_id v) = nullable v"

record ('c, 'a) schema =
  assign :: "'a \<Rightarrow> 'c \<Rightarrow> 'c"
  inserted :: "'c \<Rightarrow> int list"
  assigned :: "'a \<Rightarrow> int list"

definition polls_schema :: "(polls_columns, polls_set) schema" where
  "polls_schema = \<lparr>assign = polls_assign, inserted = polls_inserted, assigned = polls_assigned\<rparr>"

definition comments_schema :: "(comments_columns, comments_set) schema" where
  "comments_schema =
     \<lparr>assign = comments_assign, inserted = comments_inserted, assigned = comments_assigned\<rparr>"

definition teams_schema :: "(teams_columns, teams_set) schema" where
  "teams_schema = \<lparr>assign = teams_assign, inserted = teams_inserted, assigned = teams_assigned\<rparr>"

definition players_schema :: "(players_columns, players_set) schema" where
  "players_schema =
     \<lparr>assign = players_assign, inserted = players_inserted, assigned = players_assigned\<rparr>"

fun parameters :: "('c, 'a) schema \<Rightarrow> ('c, 'a) statement \<Rightarrow> int list" where
  "parameters s (INSERT_INTO c) = inserted s c"
| "parameters s SELECT_FROM = []"
| "parameters s (SELECT_FROM_WHERE_id i) = [i]"
| "parameters s (UPDATE_SET sets i) = concat (map (assigned s) sets) @ [i]"
| "parameters s (DELETE_FROM_WHERE_id i) = [i]"

subsection \<open>What a statement does\<close>

definition next_rowid :: "('c, 'a) table \<Rightarrow> int" where
  \<comment> \<open>\<^verbatim>\<open>AUTOINCREMENT\<close>: one more than the largest key the table has ever held\<close>
  "next_rowid t = max (sqlite_sequence t) (fold max (map fst (rows t)) 0) + 1"

definition INSERT :: "'c \<Rightarrow> ('c, 'a) table \<Rightarrow> ('c, 'a) table" where
  \<comment> \<open>\<open>c\<close> the columns after \<^verbatim>\<open>id\<close>; no statement of the program supplies \<^verbatim>\<open>id\<close>\<close>
  "INSERT c t = (let i = next_rowid t in t\<lparr>rows := rows t @ [(i, c)], sqlite_sequence := i\<rparr>)"

definition SELECT_where_id :: "int \<Rightarrow> ('c, 'a) table \<Rightarrow> (int \<times> 'c) list" where
  "SELECT_where_id i t = filter (\<lambda>r. fst r = i) (rows t)"

definition UPDATE_where_id ::
  "('a \<Rightarrow> 'c \<Rightarrow> 'c) \<Rightarrow> 'a list \<Rightarrow> int \<Rightarrow> ('c, 'a) table \<Rightarrow> ('c, 'a) table" where
  \<comment> \<open>the assignments of the \<^verbatim>\<open>SET\<close> list, in turn, on every row whose key matches\<close>
  "UPDATE_where_id f sets i t =
     t\<lparr>rows := map (\<lambda>r. if fst r = i then (fst r, fold f sets (snd r)) else r) (rows t)\<rparr>"

definition DELETE_where_id :: "int \<Rightarrow> ('c, 'a) table \<Rightarrow> ('c, 'a) table" where
  "DELETE_where_id i t = t\<lparr>rows := filter (\<lambda>r. fst r \<noteq> i) (rows t)\<rparr>"

datatype exception =
  HTTPException (status_code: int) (exc_detail: string) | OverflowError | OperationalError

text \<open>
  \<^verbatim>\<open>cursor.execute\<close>: the rows the cursor can fetch and its \<^verbatim>\<open>rowcount\<close> (\<open>-1\<close> after a
  \<^verbatim>\<open>SELECT\<close>), with the table afterwards; or the exception raised, the table untouched.
\<close>

definition execute ::
  "('c, 'a) schema \<Rightarrow> ('c, 'a) statement \<Rightarrow> ('c, 'a) table
     \<Rightarrow> exception + ((int \<times> 'c) list \<times> int) \<times> ('c, 'a) table" where
  "execute s stmt t =
     (if \<not> list_all sqlite_int (parameters s stmt) then Inl OverflowError
      else let t' = t\<lparr>executed := executed t @ [stmt]\<rparr> in
        case stmt of
          INSERT_INTO c \<Rightarrow>
            if sqlite_int (next_rowid t) then Inr (([], 1), INSERT c t')
            else Inl OperationalError
        | SELECT_FROM \<Rightarrow> Inr ((rows t, - 1), t')
        | SELECT_FROM_WHERE_id i \<Rightarrow> Inr ((SELECT_where_id i t, - 1), t')
        | UPDATE_SET sets i \<Rightarrow>
            Inr (([], int (length (SELECT_where_id i t))), UPDATE_where_id (assign s) sets i t')
        | DELETE_FROM_WHERE_id i \<Rightarrow>
            Inr (([], int (length (SELECT_where_id i t))), DELETE_where_id i t'))"

definition fetchone :: "'r list \<Rightarrow> 'r option" where
  "fetchone rs = (case rs of [] \<Rightarrow> None | r # _ \<Rightarrow> Some r)"

section \<open>Request models and responses\<close>

text \<open>
  The Pydantic classes. A field declared \<^verbatim>\<open>= None\<close> is optional; \<open>None\<close> stands for a
  field the request leaves out.
\<close>

record PollCreate =
  pc_question :: string

record PollUpdate =
  pu_question :: "string option"

record CommentCreate =
  cc_poll_id :: int
  cc_content :: string

record CommentUpdate =
  cu_content :: "string option"

record TeamCreate =
  tc_team_name :: string
  tc_city :: string
  tc_championships :: int

record TeamUpdate =
  tu_team_name :: "string option"
  tu_city :: "string option"
  tu_championships :: "int option"

record PlayerCreate =
  plc_name :: string
  plc_jersey_number :: int
  plc_position :: string
  plc_team_id :: int

record PlayerUpdate =
  plu_name :: "string option"
  plu_jersey_number :: "int option"
  plu_position :: "string option"
  plu_team_id :: "int option"

text \<open>
  The dictionaries the functions build from a row, one record per key set:
  \<^verbatim>\<open>{"id": .., "question": .., "likes": ..}\<close> and so on, and \<^verbatim>\<open>{"detail": ..}\<close>.
\<close>

record Poll =
  p_id :: int
  p_question :: string
  p_likes :: "int option"

record Comment =
  c_id :: int
  c_poll_id :: "int option"
  c_content :: "string option"

record Team =
  t_id :: int
  t_team_name :: string
  t_city :: string
  t_championships :: "int option"

record Player =
  pl_id :: int
  pl_name :: string
  pl_jersey_number :: int
  pl_position :: string
  pl_team_id :: "int option"

record Detail =
  detail :: string

text \<open>
  A route answers with a value (\<open>Inr\<close>) or raises (\<open>Inl\<close>): \<^verbatim>\<open>HTTPException\<close> is the
  404 the functions raise themselves, any other exception leaves the function unhandled
  and the request is answered 500. Each \<^verbatim>\<open>with sqlite3.connect(..)\<close> block commits
  when it is left normally and rolls back when it is left by an exception; no function
  raises between a write and its commit, so a rollback never undoes anything.

  A route declared with \<^verbatim>\<open>response_model=M\<close> answers with the fields of \<open>M\<close> read from
  what its function returns, and with nothing else of it.
\<close>

type_synonym 'a handler = "db \<Rightarrow> (exception + 'a) \<times> db"

definition response_model :: "('a \<Rightarrow> 'b) \<Rightarrow> (exception + 'a) \<times> db \<Rightarrow> (exception + 'b) \<times> db" where
  "response_model keep result =
     (case result of (Inl e, db') \<Rightarrow> (Inl e, db') | (Inr v, db') \<Rightarrow> (Inr (keep v), db'))"

section \<open>Poll routes\<close>

definition Poll_of_row :: "int \<times> polls_columns \<Rightarrow> Poll" where
  "Poll_of_row row = (case row of (row0, row1, row2) \<Rightarrow>
     \<lparr>p_id = row0, p_question = row1, p_likes = row2\<rparr>)"

definition create_poll :: "PollCreate \<Rightarrow> PollCreate handler" where
  \<comment> \<open>\<^verbatim>\<open>INSERT INTO polls (question) VALUES (?)\<close>; \<^verbatim>\<open>likes\<close> takes its \<^verbatim>\<open>DEFAULT 0\<close>.
      \<^verbatim>\<open>response_model=PollCreate\<close>: what is returned is a \<^verbatim>\<open>PollCreate\<close> already\<close>
  "create_poll poll db =
     (case execute polls_schema (INSERT_INTO (pc_question poll, Some 0)) (polls db) of
        Inl e \<Rightarrow> (Inl e, db)
      | Inr (cursor, t) \<Rightarrow> (Inr poll, db\<lparr>polls := t\<rparr>))"

definition get_polls :: "Poll list handler" where
  "get_polls db =
     (case execute polls_schema SELECT_FROM (polls db) of
        Inl e \<Rightarrow> (Inl e, db)
      | Inr ((fetchall, rowcount), t) \<Rightarrow> (Inr (map Poll_of_row fetchall), db\<lparr>polls := t\<rparr>))"

definition get_poll :: "int \<Rightarrow> Poll handler" where
  "get_poll poll_id db =
     (case execute polls_schema (SELECT_FROM_WHERE_id poll_id) (polls db) of
        Inl e \<Rightarrow> (Inl e, db)
      | Inr ((fetched, rowcount), t) \<Rightarrow>
          (case fetchone fetched of
             None \<Rightarrow> (Inl (HTTPException 404 ''Poll not found''), db\<lparr>polls := t\<rparr>)
           | Some poll \<Rightarrow> (Inr (Poll_of_row poll), db\<lparr>polls := t\<rparr>)))"

definition update_poll_function :: "int \<Rightarrow> PollUpdate \<Rightarrow> Poll handler" where
  \<comment> \<open>the body of \<^verbatim>\<open>update_poll\<close>; its statement is
      \<^verbatim>\<open>UPDATE polls SET question = ? WHERE id = ?\<close>\<close>
  "update_poll_function poll_id poll_update db =
     (case execute polls_schema (SELECT_FROM_WHERE_id poll_id) (polls db) of
        Inl e \<Rightarrow> (Inl e, db)
      | Inr ((fetched, rowcount), t) \<Rightarrow>
          (case fetchone fetched of
             None \<Rightarrow> (Inl (HTTPException 404 ''Poll not found''), db\<lparr>polls := t\<rparr>)
           | Some (existing0, existing1, existing2) \<Rightarrow>
               (let updated_question =
                 (case pu_question poll_update of Some v \<Rightarrow> v | None \<Rightarrow> existing1)
                in case execute polls_schema (UPDATE_SET [SET_question updated_question] poll_id) t of
                     Inl e \<Rightarrow> (Inl e, db\<lparr>polls := t\<rparr>)
                   | Inr (cursor, t') \<Rightarrow>
                       (Inr \<lparr>p_id = poll_id, p_question = updated_question, p_likes = existing2\<rparr>,
                        db\<lparr>polls := t'\<rparr>))))"

definition PollUpdate_fields :: "Poll \<Rightarrow> PollUpdate" where
  "PollUpdate_fields d = \<lparr>pu_question = Some (p_question d)\<rparr>"

definition update_poll :: "int \<Rightarrow> PollUpdate \<Rightarrow> PollUpdate handler" where
  \<comment> \<open>\<^verbatim>\<open>app.put("/polls/{poll_id}", response_model=PollUpdate)\<close>\<close>
  "update_poll poll_id poll_update db =
     response_model PollUpdate_fields (update_poll_function poll_id poll_update db)"

definition delete_poll :: "int \<Rightarrow> Detail handler" where
  "delete_poll poll_id db =
     (case execute polls_schema (DELETE_FROM_WHERE_id poll_id) (polls db) of
        Inl e \<Rightarrow> (Inl e, db)
      | Inr ((fetched, rowcount), t) \<Rightarrow>
          (if rowcount = 0 then (Inl (HTTPException 404 ''Poll not found''), db\<lparr>polls := t\<rparr>)
           else (Inr \<lparr>detail = ''Poll deleted successfully''\<rparr>, db\<lparr>polls := t\<rparr>)))"

section \<open>Comment routes\<close>

definition Comment_of_row :: "int \<times> comments_columns \<Rightarrow> Comment" where
  "Comment_of_row row = (case row of (row0, row1, row2) \<Rightarrow>
     \<lparr>c_id = row0, c_poll_id = row1, c_content = row2\<rparr>)"

definition create_comment :: "CommentCreate \<Rightarrow> CommentCreate handler" where
  \<comment> \<open>\<^verbatim>\<open>INSERT INTO comments (poll_id, content) VALUES (?, ?)\<close>; the connection never turns
      foreign-key enforcement on, so the \<^verbatim>\<open>polls\<close> table is not consulted.
      \<^verbatim>\<open>response_model=CommentCreate\<close>: what is returned is a \<^verbatim>\<open>CommentCreate\<close> already\<close>
  "create_comment comment db =
     (case execute comments_schema (INSERT_INTO (Some (cc_poll_id comment), Some (cc_content comment))) (comments db) of
        Inl e \<Rightarrow> (Inl e, db)
      | Inr (cursor, t) \<Rightarrow> (Inr comment, db\<lparr>comments := t\<rparr>))"

definition get_comments :: "Comment list handler" where
  "get_comments db =
     (case execute comments_schema SELECT_FROM (comments db) of
        Inl e \<Rightarrow> (Inl e, db)
      | Inr ((fetchall, rowcount), t) \<Rightarrow> (Inr (map Comment_of_row fetchall), db\<lparr>comments := t\<rparr>))"

definition get_comment :: "int \<Rightarrow> Comment handler" where
  "get_comment comment_id db =
     (case execute comments_schema (SELECT_FROM_WHERE_id comment_id) (comments db) of
        Inl e \<Rightarrow> (Inl e, db)
      | Inr ((fetched, rowcount), t) \<Rightarrow>
          (case fetchone fetched of
             None \<Rightarrow> (Inl (HTTPException 404 ''Comment not found''), db\<lparr>comments := t\<rparr>)
           | Some comment \<Rightarrow> (Inr (Comment_of_row comment), db\<lparr>comments := t\<rparr>)))"

definition update_comment_function :: "int \<Rightarrow> CommentUpdate \<Rightarrow> Comment handler" where
  \<comment> \<open>the body of \<^verbatim>\<open>update_comment\<close>; its statement is
      \<^verbatim>\<open>UPDATE comments SET content = ? WHERE id = ?\<close>\<close>
  "update_comment_function comment_id comment_update db =
     (case execute comments_schema (SELECT_FROM_WHERE_id comment_id) (comments db) of
        Inl e \<Rightarrow> (Inl e, db)
      | Inr ((fetched, rowcount), t) \<Rightarrow>
          (case fetchone fetched of
             None \<Rightarrow> (Inl (HTTPException 404 ''Comment not found''), db\<lparr>comments := t\<rparr>)
           | Some (existing0, existing1, existing2) \<Rightarrow>
               (let updated_content =
                 (case cu_content comment_update of Some v \<Rightarrow> Some v | None \<Rightarrow> existing2)
                in case execute comments_schema (UPDATE_SET [SET_content updated_content] comment_id) t of
                     Inl e \<Rightarrow> (Inl e, db\<lparr>comments := t\<rparr>)
                   | Inr (cursor, t') \<Rightarrow>
                       (Inr \<lparr>c_id = comment_id, c_poll_id = existing1, c_content = updated_content\<rparr>,
                        db\<lparr>comments := t'\<rparr>))))"

definition CommentUpdate_fields :: "Comment \<Rightarrow> CommentUpdate" where
  "CommentUpdate_fields d = \<lparr>cu_content = c_content d\<rparr>"

definition update_comment :: "int \<Rightarrow> CommentUpdate \<Rightarrow> CommentUpdate handler" where
  \<comment> \<open>\<^verbatim>\<open>app.put("/comments/{comment_id}", response_model=CommentUpdate)\<close>\<close>
  "update_comment comment_id comment_update db =
     response_model CommentUpdate_fields (update_comment_function comment_id comment_update db)"

definition delete_comment :: "int \<Rightarrow> Detail handler" where
  "delete_comment comment_id db =
     (case execute comments_schema (DELETE_FROM_WHERE_id comment_id) (comments db) of
        Inl e \<Rightarrow> (Inl e, db)
      | Inr ((fetched, rowcount), t) \<Rightarrow>
          (if rowcount = 0 then (Inl (HTTPException 404 ''Comment not found''), db\<lparr>comments := t\<rparr>)
           else (Inr \<lparr>detail = ''Comment deleted successfully''\<rparr>, db\<lparr>comments := t\<rparr>)))"

section \<open>Team routes\<close>

definition Team_of_row :: "int \<times> teams_columns \<Rightarrow> Team" where
  "Team_of_row row = (case row of (row0, row1, row2, row3) \<Rightarrow>
     \<lparr>t_id = row0, t_team_name = row1, t_city = row2, t_championships = row3\<rparr>)"

definition create_team :: "TeamCreate \<Rightarrow> TeamCreate handler" where
  \<comment> \<open>\<^verbatim>\<open>INSERT INTO teams (team_name, city, championships) VALUES (?, ?, ?)\<close>.
      \<^verbatim>\<open>response_model=TeamCreate\<close>: what is returned is a \<^verbatim>\<open>TeamCreate\<close> already\<close>
  "create_team team db =
     (case execute teams_schema (INSERT_INTO (tc_team_name team, tc_city team, Some (tc_championships team))) (teams db) of
        Inl e \<Rightarrow> (Inl e, db)
      | Inr (cursor, t) \<Rightarrow> (Inr team, db\<lparr>teams := t\<rparr>))"

definition get_teams :: "Team list handler" where
  "get_teams db =
     (case execute teams_schema SELECT_FROM (teams db) of
        Inl e \<Rightarrow> (Inl e, db)
      | Inr ((fetchall, rowcount), t) \<Rightarrow> (Inr (map Team_of_row fetchall), db\<lparr>teams := t\<rparr>))"

definition get_team :: "int \<Rightarrow> Team handler" where
  "get_team team_id db =
     (case execute teams_schema (SELECT_FROM_WHERE_id team_id) (teams db) of
        Inl e \<Rightarrow> (Inl e, db)
      | Inr ((fetched, rowcount), t) \<Rightarrow>
          (case fetchone fetched of
             None \<Rightarrow> (Inl (HTTPException 404 ''Team not found''), db\<lparr>teams := t\<rparr>)
           | Some team \<Rightarrow> (Inr (Team_of_row team), db\<lparr>teams := t\<rparr>)))"

definition update_team_function :: "int \<Rightarrow> TeamUpdate \<Rightarrow> Team handler" where
  \<comment> \<open>the body of \<^verbatim>\<open>update_team\<close>; its statement is
      \<^verbatim>\<open>UPDATE teams SET team_name = ?, city = ?, championships = ? WHERE id = ?\<close>\<close>
  "update_team_function team_id team_update db =
     (case execute teams_schema (SELECT_FROM_WHERE_id team_id) (teams db) of
        Inl e \<Rightarrow> (Inl e, db)
      | Inr ((fetched, rowcount), t) \<Rightarrow>
          (case fetchone fetched of
             None \<Rightarrow> (Inl (HTTPException 404 ''Team not found''), db\<lparr>teams := t\<rparr>)
           | Some (existing0, existing1, existing2, existing3) \<Rightarrow>
               (let updated_team_name =
                 (case tu_team_name team_update of Some v \<Rightarrow> v | None \<Rightarrow> existing1);
                    updated_city =
                 (case tu_city team_update of Some v \<Rightarrow> v | None \<Rightarrow> existing2);
                    updated_championships =
                 (case tu_championships team_update of Some v \<Rightarrow> Some v | None \<Rightarrow> existing3)
                in case execute teams_schema (UPDATE_SET [SET_team_name updated_team_name, SET_city updated_city, SET_championships updated_championships] team_id) t of
                     Inl e \<Rightarrow> (Inl e, db\<lparr>teams := t\<rparr>)
                   | Inr (cursor, t') \<Rightarrow>
                       (Inr \<lparr>t_id = team_id, t_team_name = updated_team_name, t_city = updated_city, t_championships = updated_championships\<rparr>,
                        db\<lparr>teams := t'\<rparr>))))"

definition TeamUpdate_fields :: "Team \<Rightarrow> TeamUpdate" where
  "TeamUpdate_fields d = \<lparr>tu_team_name = Some (t_team_name d), tu_city = Some (t_city d), tu_championships = t_championships d\<rparr>"

definition update_team :: "int \<Rightarrow> TeamUpdate \<Rightarrow> TeamUpdate handler" where
  \<comment> \<open>\<^verbatim>\<open>app.put("/teams/{team_id}", response_model=TeamUpdate)\<close>\<close>
  "update_team team_id team_update db =
     response_model TeamUpdate_fields (update_team_function team_id team_update db)"

definition delete_team :: "int \<Rightarrow> Detail handler" where
  "delete_team team_id db =
     (case execute teams_schema (DELETE_FROM_WHERE_id team_id) (teams db) of
        Inl e \<Rightarrow> (Inl e, db)
      | Inr ((fetched, rowcount), t) \<Rightarrow>
          (if rowcount = 0 then (Inl (HTTPException 404 ''Team not found''), db\<lparr>teams := t\<rparr>)
           else (Inr \<lparr>detail = ''Team deleted successfully''\<rparr>, db\<lparr>teams := t\<rparr>)))"

section \<open>Player routes\<close>

definition Player_of_row :: "int \<times> players_columns \<Rightarrow> Player" where
  "Player_of_row row = (case row of (row0, row1, row2, row3, row4) \<Rightarrow>
     \<lparr>pl_id = row0, pl_name = row1, pl_jersey_number = row2, pl_position = row3, pl_team_id = row4\<rparr>)"

definition create_player :: "PlayerCreate \<Rightarrow> PlayerCreate handler" where
  \<comment> \<open>\<^verbatim>\<open>INSERT INTO players (name, jersey_number, position, team_id) VALUES (?, ?, ?, ?)\<close>; as for comments,
      the \<^verbatim>\<open>teams\<close> table is not consulted.
      \<^verbatim>\<open>response_model=PlayerCreate\<close>: what is returned is a \<^verbatim>\<open>PlayerCreate\<close> already\<close>
  "create_player player db =
     (case execute players_schema (INSERT_INTO (plc_name player, plc_jersey_number player, plc_position player, Some (plc_team_id player))) (players db) of
        Inl e \<Rightarrow> (Inl e, db)
      | Inr (cursor, t) \<Rightarrow> (Inr player, db\<lparr>players := t\<rparr>))"

definition get_players :: "Player list handler" where
  "get_players db =
     (case execute players_schema SELECT_FROM (players db) of
        Inl e \<Rightarrow> (Inl e, db)
      | Inr ((fetchall, rowcount), t) \<Rightarrow> (Inr (map Player_of_row fetchall), db\<lparr>players := t\<rparr>))"

definition get_player :: "int \<Rightarrow> Player handler" where
  "get_player player_id db =
     (case execute players_schema (SELECT_FROM_WHERE_id player_id) (players db) of
        Inl e \<Rightarrow> (Inl e, db)
      | Inr ((fetched, rowcount), t) \<Rightarrow>
          (case fetchone fetched of
             None \<Rightarrow> (Inl (HTTPException 404 ''Player not found''), db\<lparr>players := t\<rparr>)
           | Some player \<Rightarrow> (Inr (Player_of_row player), db\<lparr>players := t\<rparr>)))"

definition update_player_function :: "int \<Rightarrow> PlayerUpdate \<Rightarrow> Player handler" where
  \<comment> \<open>the body of \<^verbatim>\<open>update_player\<close>; its statement is
      \<^verbatim>\<open>UPDATE players SET name = ?, jersey_number = ?, position = ?, team_id = ? WHERE id = ?\<close>\<close>
  "update_player_function player_id player_update db =
     (case execute players_schema (SELECT_FROM_WHERE_id player_id) (players db) of
        Inl e \<Rightarrow> (Inl e, db)
      | Inr ((fetched, rowcount), t) \<Rightarrow>
          (case fetchone fetched of
             None \<Rightarrow> (Inl (HTTPException 404 ''Player not found''), db\<lparr>players := t\<rparr>)
           | Some (existing0, existing1, existing2, existing3, existing4) \<Rightarrow>
               (let updated_name =
                 (case plu_name player_update of Some v \<Rightarrow> v | None \<Rightarrow> existing1);
                    updated_jersey_number =
                 (case plu_jersey_number player_update of Some v \<Rightarrow> v | None \<Rightarrow> existing2);
                    updated_position =
                 (case plu_position player_update of Some v \<Rightarrow> v | None \<Rightarrow> existing3);
                    updated_team_id =
                 (case plu_team_id player_update of Some v \<Rightarrow> Some v | None \<Rightarrow> existing4)
                in case execute players_schema (UPDATE_SET [SET_name updated_name, SET_jersey_number updated_jersey_number, SET_position updated_position, SET_team_id updated_team_id] player_id) t of
                     Inl e \<Rightarrow> (Inl e, db\<lparr>players := t\<rparr>)
                   | Inr (cursor, t') \<Rightarrow>
                       (Inr \<lparr>pl_id = player_id, pl_name = updated_name, pl_jersey_number = updated_jersey_number, pl_position = updated_position, pl_team_id = updated_team_id\<rparr>,
                        db\<lparr>players := t'\<rparr>))))"

definition PlayerUpdate_fields :: "Player \<Rightarrow> PlayerUpdate" where
  "PlayerUpdate_fields d = \<lparr>plu_name = Some (pl_name d), plu_jersey_number = Some (pl_jersey_number d), plu_position = Some (pl_position d), plu_team_id = pl_team_id d\<rparr>"

definition update_player :: "int \<Rightarrow> PlayerUpdate \<Rightarrow> PlayerUpdate handler" where
  \<comment> \<open>\<^verbatim>\<open>app.put("/players/{player_id}", response_model=PlayerUpdate)\<close>\<close>
  "update_player player_id player_update db =
     response_model PlayerUpdate_fields (update_player_function player_id player_update db)"

definition delete_player :: "int \<Rightarrow> Detail handler" where
  "delete_player player_id db =
     (case execute players_schema (DELETE_FROM_WHERE_id player_id) (players db) of
        Inl e \<Rightarrow> (Inl e, db)
      | Inr ((fetched, rowcount), t) \<Rightarrow>
          (if rowcount = 0 then (Inl (HTTPException 404 ''Player not found''), db\<lparr>players := t\<rparr>)
           else (Inr \<lparr>detail = ''Player deleted successfully''\<rparr>, db\<lparr>players := t\<rparr>)))"

section \<open>The service as a whole\<close>

text \<open>The twenty routes, and what a request to each does to the store.\<close>

datatype request =
    POST_polls PollCreate | GET_polls | GET_poll int | PUT_poll int PollUpdate | DELETE_poll int
  | POST_comments CommentCreate | GET_comments | GET_comment int
  | PUT_comment int CommentUpdate | DELETE_comment int
  | POST_teams TeamCreate | GET_teams | GET_team int | PUT_team int TeamUpdate | DELETE_team int
  | POST_players PlayerCreate | GET_players | GET_player int
  | PUT_player int PlayerUpdate | DELETE_player int

fun serve :: "request \<Rightarrow> db \<Rightarrow> db" where
  "serve (POST_polls poll) db = snd (create_poll poll db)"
| "serve GET_polls db = snd (get_polls db)"
| "serve (GET_poll i) db = snd (get_poll i db)"
| "serve (PUT_poll i u) db = snd (update_poll i u db)"
| "serve (DELETE_poll i) db = snd (delete_poll i db)"
| "serve (POST_comments comment) db = snd (create_comment comment db)"
| "serve GET_comments db = snd (get_comments db)"
| "serve (GET_comment i) db = snd (get_comment i db)"
| "serve (PUT_comment i u) db = snd (update_comment i u db)"
| "serve (DELETE_comment i) db = snd (delete_comment i db)"
| "serve (POST_teams team) db = snd (create_team team db)"
| "serve GET_teams db = snd (get_teams db)"
| "serve (GET_team i) db = snd (get_team i db)"
| "serve (PUT_team i u) db = snd (update_team i u db)"
| "serve (DELETE_team i) db = snd (delete_team i db)"
| "serve (POST_players player) db = snd (create_player player db)"
| "serve GET_players db = snd (get_players db)"
| "serve (GET_player i) db = snd (get_player i db)"
| "serve (PUT_player i u) db = snd (update_player i u db)"
| "serve (DELETE_player i) db = snd (delete_player i db)"

inductive reachable :: "db \<Rightarrow> bool" where
  start: "reachable init_db"
| request: "reachable db \<Longrightarrow> reachable (serve req db)"

definition primary_key :: "('c, 'a) table \<Rightarrow> bool" where
  \<comment> \<open>\<^verbatim>\<open>id INTEGER PRIMARY KEY\<close>: no two rows of a table share a key\<close>
  "primary_key t = distinct (map fst (rows t))"

definition has_row :: "int \<Rightarrow> ('c, 'a) table \<Rightarrow> bool" where
  "has_row i t = (i \<in> fst ` set (rows t))"

definition lookup :: "int \<Rightarrow> ('c, 'a) table \<Rightarrow> 'c option" where
  \<comment> \<open>the columns stored under a key\<close>
  "lookup i t = map_option snd (find (\<lambda>r. fst r = i) (rows t))"

text \<open>
  A store to try the routes on: a fresh database after one \<^verbatim>\<open>POST\<close> to each resource,
  the comment naming a poll that does not exist.
\<close>

definition scenario_db :: db where
  "scenario_db =
     serve (POST_players \<lparr>plc_name = ''Ann'', plc_jersey_number = 7, plc_position = ''guard'',
                           plc_team_id = 1\<rparr>)
    (serve (POST_teams \<lparr>tc_team_name = ''Hawks'', tc_city = ''Atlanta'', tc_championships = 1\<rparr>)
    (serve (POST_comments \<lparr>cc_poll_id = 999, cc_content = ''hi''\<rparr>)
    (serve (POST_polls \<lparr>pc_question = ''Best sport?''\<rparr>) init_db)))"

section \<open>Facts about the statements\<close>

lemma fetchone_filter: "fetchone (filter P xs) = find P xs"
  by (induction xs) (simp_all add: fetchone_def)

lemma select_find: "fetchone (SELECT_where_id i t) = find (\<lambda>r. fst r = i) (rows t)"
  by (simp add: SELECT_where_id_def fetchone_filter)

lemma find_key_None: "find (\<lambda>r. fst r = i) xs = None \<longleftrightarrow> i \<notin> fst ` set xs"
  by (induction xs) auto

lemma find_key_Some: "find (\<lambda>r. fst r = i) xs = Some r \<Longrightarrow> fst r = i \<and> r \<in> set xs"
  by (induction xs) (auto split: if_splits)

lemma find_app:
  "find P (xs @ ys) = (case find P xs of None \<Rightarrow> find P ys | Some x \<Rightarrow> Some x)"
  by (induction xs) auto

lemma find_key_map:
  "find (\<lambda>r. fst r = j) (map (\<lambda>r. if fst r = i then (fst r, f (snd r)) else r) xs)
   = map_option (\<lambda>r. if fst r = i then (fst r, f (snd r)) else r) (find (\<lambda>r. fst r = j) xs)"
  by (induction xs) auto

lemma find_key_filter:
  "find (\<lambda>r. fst r = j) (filter (\<lambda>r. fst r \<noteq> i) xs)
   = (if j = i then None else find (\<lambda>r. fst r = j) xs)"
  by (induction xs) auto

lemma lookup_None: "lookup i t = None \<longleftrightarrow> \<not> has_row i t"
  by (simp add: lookup_def has_row_def find_key_None)

lemma lookup_Some: "lookup i t = Some c \<longleftrightarrow> find (\<lambda>r. fst r = i) (rows t) = Some (i, c)"
proof
  assume "lookup i t = Some c"
  then obtain r where r: "find (\<lambda>r. fst r = i) (rows t) = Some r" "snd r = c"
    by (auto simp: lookup_def)
  from find_key_Some[OF r(1)] r(2) have "r = (i, c)" by (cases r) simp
  with r(1) show "find (\<lambda>r. fst r = i) (rows t) = Some (i, c)" by simp
next
  assume "find (\<lambda>r. fst r = i) (rows t) = Some (i, c)"
  then show "lookup i t = Some c" by (simp add: lookup_def)
qed

lemma select_length_zero: "length (SELECT_where_id i t) = 0 \<longleftrightarrow> \<not> has_row i t"
  by (auto simp: SELECT_where_id_def has_row_def filter_empty_conv)

lemma fold_max_ge: "(m::int) \<le> fold max xs m"
proof (induction xs arbitrary: m)
  case Nil then show ?case by simp
next
  case (Cons a xs)
  have "m \<le> max a m" by simp
  also have "\<dots> \<le> fold max xs (max a m)" by (rule Cons.IH)
  finally show ?case by simp
qed

lemma fold_max_mem: "x \<in> set xs \<Longrightarrow> (x::int) \<le> fold max xs m"
proof (induction xs arbitrary: m)
  case Nil then show ?case by simp
next
  case (Cons a xs)
  show ?case
  proof (cases "x = a")
    case True
    have "max a m \<le> fold max xs (max a m)" by (rule fold_max_ge)
    with True show ?thesis by simp
  next
    case False
    with Cons show ?thesis by simp
  qed
qed

lemma next_rowid_fresh: "next_rowid t \<notin> fst ` set (rows t)"
proof
  assume "next_rowid t \<in> fst ` set (rows t)"
  then have "next_rowid t \<in> set (map fst (rows t))" by simp
  then have "next_rowid t \<le> fold max (map fst (rows t)) 0" by (rule fold_max_mem)
  then show False by (simp add: next_rowid_def)
qed

lemma next_rowid_executed: "next_rowid (t\<lparr>executed := e\<rparr>) = next_rowid t"
  by (simp add: next_rowid_def)

lemma select_executed: "SELECT_where_id i (t\<lparr>executed := e\<rparr>) = SELECT_where_id i t"
  by (simp add: SELECT_where_id_def)

lemma rows_INSERT: "rows (INSERT c t) = rows t @ [(next_rowid t, c)]"
  by (simp add: INSERT_def Let_def)

lemma rows_UPDATE:
  "rows (UPDATE_where_id f sets i t) =
     map (\<lambda>r. if fst r = i then (fst r, fold f sets (snd r)) else r) (rows t)"
  by (simp add: UPDATE_where_id_def)

lemma rows_DELETE: "rows (DELETE_where_id i t) = filter (\<lambda>r. fst r \<noteq> i) (rows t)"
  by (simp add: DELETE_where_id_def)

lemma executed_INSERT: "executed (INSERT c t) = executed t"
  by (simp add: INSERT_def Let_def)

lemma executed_UPDATE: "executed (UPDATE_where_id f sets i t) = executed t"
  by (simp add: UPDATE_where_id_def)

lemma executed_DELETE: "executed (DELETE_where_id i t) = executed t"
  by (simp add: DELETE_where_id_def)

text \<open>What \<^verbatim>\<open>execute\<close> hands back, statement by statement.\<close>

lemma execute_overflow:
  "\<not> list_all sqlite_int (parameters s stmt) \<Longrightarrow> execute s stmt t = Inl OverflowError"
  by (simp add: execute_def)

lemma execute_insert:
  "list_all sqlite_int (inserted s c) \<Longrightarrow> sqlite_int (next_rowid t) \<Longrightarrow>
   execute s (INSERT_INTO c) t = Inr (([], 1), INSERT c (t\<lparr>executed := executed t @ [INSERT_INTO c]\<rparr>))"
  by (simp add: execute_def)

lemma execute_insert_full:
  "list_all sqlite_int (inserted s c) \<Longrightarrow> \<not> sqlite_int (next_rowid t) \<Longrightarrow>
   execute s (INSERT_INTO c) t = Inl OperationalError"
  by (simp add: execute_def)

lemma execute_select: "execute s SELECT_FROM t = Inr ((rows t, - 1), t\<lparr>executed := executed t @ [SELECT_FROM]\<rparr>)"
  by (simp add: execute_def)

lemma execute_select_id:
  "sqlite_int i \<Longrightarrow>
   execute s (SELECT_FROM_WHERE_id i) t =
     Inr ((SELECT_where_id i t, - 1), t\<lparr>executed := executed t @ [SELECT_FROM_WHERE_id i]\<rparr>)"
  by (simp add: execute_def)

lemma execute_select_id_overflow:
  "\<not> sqlite_int i \<Longrightarrow> execute s (SELECT_FROM_WHERE_id i) t = Inl OverflowError"
  by (simp add: execute_def)

lemma execute_update:
  "sqlite_int i \<Longrightarrow> list_all sqlite_int (concat (map (assigned s) sets)) \<Longrightarrow>
   execute s (UPDATE_SET sets i) t =
     Inr (([], int (length (SELECT_where_id i t))),
          UPDATE_where_id (assign s) sets i (t\<lparr>executed := executed t @ [UPDATE_SET sets i]\<rparr>))"
  by (simp add: execute_def)

lemma execute_delete:
  "sqlite_int i \<Longrightarrow>
   execute s (DELETE_FROM_WHERE_id i) t =
     Inr (([], int (length (SELECT_where_id i t))),
          DELETE_where_id i (t\<lparr>executed := executed t @ [DELETE_FROM_WHERE_id i]\<rparr>))"
  by (simp add: execute_def)

lemma execute_delete_overflow:
  "\<not> sqlite_int i \<Longrightarrow> execute s (DELETE_FROM_WHERE_id i) t = Inl OverflowError"
  by (simp add: execute_def)

lemma schema_simps:
  "assign polls_schema = polls_assign" "inserted polls_schema = polls_inserted"
  "assigned polls_schema = polls_assigned"
  "assign comments_schema = comments_assign" "inserted comments_schema = comments_inserted"
  "assigned comments_schema = comments_assigned"
  "assign teams_schema = teams_assign" "inserted teams_schema = teams_inserted"
  "assigned teams_schema = teams_assigned"
  "assign players_schema = players_assign" "inserted players_schema = players_inserted"
  "assigned players_schema = players_assigned"
  by (simp_all add: polls_schema_def comments_schema_def teams_schema_def players_schema_def)

section \<open>Facts about the routes\<close>

lemma fetch_lookup: "fetchone (SELECT_where_id i t) = map_option (Pair i) (lookup i t)"
proof (cases "find (\<lambda>r. fst r = i) (rows t)")
  case None
  then show ?thesis by (simp add: select_find lookup_def)
next
  case (Some r)
  with find_key_Some[OF Some] show ?thesis
    by (cases r) (simp add: select_find lookup_def)
qed

lemma response_model_fst: "fst (response_model keep r) = map_sum id keep (fst r)"
  by (cases r; cases "fst r") (auto simp: response_model_def)

lemma response_model_snd: "snd (response_model keep r) = snd r"
  by (cases r; cases "fst r") (auto simp: response_model_def)

subsection \<open>Poll routes\<close>

lemma get_poll_overflow: "\<not> sqlite_int i \<Longrightarrow> get_poll i db = (Inl OverflowError, db)"
  by (simp add: get_poll_def execute_select_id_overflow)

lemma get_poll_result:
  "sqlite_int i \<Longrightarrow>
   fst (get_poll i db) =
     (case lookup i (polls db) of
        None \<Rightarrow> Inl (HTTPException 404 ''Poll not found'')
      | Some c \<Rightarrow> Inr (Poll_of_row (i, c)))"
  by (simp add: get_poll_def execute_select_id fetch_lookup split: option.splits)

lemma get_poll_store:
  "snd (get_poll i db) =
     (if sqlite_int i
      then db\<lparr>polls := (polls db)\<lparr>executed := executed (polls db) @ [SELECT_FROM_WHERE_id i]\<rparr>\<rparr>
      else db)"
  by (simp add: get_poll_def execute_select_id execute_select_id_overflow split: option.splits)

lemma get_polls_result: "fst (get_polls db) = Inr (map Poll_of_row (rows (polls db)))"
  by (simp add: get_polls_def execute_select)

lemma get_polls_store:
  "snd (get_polls db) = db\<lparr>polls := (polls db)\<lparr>executed := executed (polls db) @ [SELECT_FROM]\<rparr>\<rparr>"
  by (simp add: get_polls_def execute_select)

lemma delete_poll_overflow: "\<not> sqlite_int i \<Longrightarrow> delete_poll i db = (Inl OverflowError, db)"
  by (simp add: delete_poll_def execute_delete_overflow)

lemma delete_poll_result:
  "sqlite_int i \<Longrightarrow>
   fst (delete_poll i db) =
     (if has_row i (polls db) then Inr \<lparr>detail = ''Poll deleted successfully''\<rparr>
      else Inl (HTTPException 404 ''Poll not found''))"
  using select_length_zero[of i "polls db"] by (simp add: delete_poll_def execute_delete)

lemma delete_poll_store:
  "snd (delete_poll i db) =
     (if sqlite_int i
      then db\<lparr>polls := DELETE_where_id i
                 ((polls db)\<lparr>executed := executed (polls db) @ [DELETE_FROM_WHERE_id i]\<rparr>)\<rparr>
      else db)"
  by (simp add: delete_poll_def execute_delete execute_delete_overflow)


lemma create_poll_store:
  "sqlite_int (next_rowid (polls db)) \<Longrightarrow> 
   snd (create_poll poll db) =
     db\<lparr>polls := INSERT (pc_question poll, Some 0)
           ((polls db)\<lparr>executed := executed (polls db) @
              [INSERT_INTO (pc_question poll, Some 0)]\<rparr>)\<rparr>"
  by (simp add: create_poll_def execute_insert schema_simps nullable_def)

lemma create_poll_full:
  "\<not> sqlite_int (next_rowid (polls db)) \<Longrightarrow> 
   create_poll poll db = (Inl OperationalError, db)"
  by (simp add: create_poll_def execute_insert_full schema_simps nullable_def)

lemma update_poll_function_overflow:
  "\<not> sqlite_int i \<Longrightarrow> update_poll_function i u db = (Inl OverflowError, db)"
  by (simp add: update_poll_function_def execute_select_id_overflow)

lemma update_poll_function_absent:
  "sqlite_int i \<Longrightarrow> lookup i (polls db) = None \<Longrightarrow>
   update_poll_function i u db =
     (Inl (HTTPException 404 ''Poll not found''),
      db\<lparr>polls := (polls db)\<lparr>executed := executed (polls db) @ [SELECT_FROM_WHERE_id i]\<rparr>\<rparr>)"
  by (simp add: update_poll_function_def execute_select_id fetch_lookup)

lemma update_poll_function_present:
  "sqlite_int i \<Longrightarrow> lookup i (polls db) = Some (old_question, old_likes) \<Longrightarrow>
   update_poll_function i u db =
     (Inr \<lparr>p_id = i,
           p_question = (case pu_question u of Some v \<Rightarrow> v | None \<Rightarrow> old_question),
           p_likes = old_likes\<rparr>,
      db\<lparr>polls := UPDATE_where_id polls_assign
                [SET_question (case pu_question u of Some v \<Rightarrow> v | None \<Rightarrow> old_question)] i
             ((polls db)\<lparr>executed := executed (polls db) @
                [SELECT_FROM_WHERE_id i,
                 UPDATE_SET
                [SET_question (case pu_question u of Some v \<Rightarrow> v | None \<Rightarrow> old_question)] i]\<rparr>)\<rparr>)"
  by (simp add: update_poll_function_def execute_select_id fetch_lookup execute_update
        schema_simps Let_def UPDATE_where_id_def)

subsection \<open>Comment routes\<close>

lemma get_comment_overflow: "\<not> sqlite_int i \<Longrightarrow> get_comment i db = (Inl OverflowError, db)"
  by (simp add: get_comment_def execute_select_id_overflow)

lemma get_comment_result:
  "sqlite_int i \<Longrightarrow>
   fst (get_comment i db) =
     (case lookup i (comments db) of
        None \<Rightarrow> Inl (HTTPException 404 ''Comment not found'')
      | Some c \<Rightarrow> Inr (Comment_of_row (i, c)))"
  by (simp add: get_comment_def execute_select_id fetch_lookup split: option.splits)

lemma get_comment_store:
  "snd (get_comment i db) =
     (if sqlite_int i
      then db\<lparr>comments := (comments db)\<lparr>executed := executed (comments db) @ [SELECT_FROM_WHERE_id i]\<rparr>\<rparr>
      else db)"
  by (simp add: get_comment_def execute_select_id execute_select_id_overflow split: option.splits)

lemma get_comments_result: "fst (get_comments db) = Inr (map Comment_of_row (rows (comments db)))"
  by (simp add: get_comments_def execute_select)

lemma get_comments_store:
  "snd (get_comments db) = db\<lparr>comments := (comments db)\<lparr>executed := executed (comments db) @ [SELECT_FROM]\<rparr>\<rparr>"
  by (simp add: get_comments_def execute_select)

lemma delete_comment_overflow: "\<not> sqlite_int i \<Longrightarrow> delete_comment i db = (Inl OverflowError, db)"
  by (simp add: delete_comment_def execute_delete_overflow)

lemma delete_comment_result:
  "sqlite_int i \<Longrightarrow>
   fst (delete_comment i db) =
     (if has_row i (comments db) then Inr \<lparr>detail = ''Comment deleted successfully''\<rparr>
      else Inl (HTTPException 404 ''Comment not found''))"
  using select_length_zero[of i "comments db"] by (simp add: delete_comment_def execute_delete)

lemma delete_comment_store:
  "snd (delete_comment i db) =
     (if sqlite_int i
      then db\<lparr>comments := DELETE_where_id i
                 ((comments db)\<lparr>executed := executed (comments db) @ [DELETE_FROM_WHERE_id i]\<rparr>)\<rparr>
      else db)"
  by (simp add: delete_comment_def execute_delete execute_delete_overflow)


lemma create_comment_store:
  "sqlite_int (cc_poll_id comment) \<Longrightarrow> sqlite_int (next_rowid (comments db)) \<Longrightarrow> 
   snd (create_comment comment db) =
     db\<lparr>comments := INSERT (Some (cc_poll_id comment), Some (cc_content comment))
           ((comments db)\<lparr>executed := executed (comments db) @
              [INSERT_INTO (Some (cc_poll_id comment), Some (cc_content comment))]\<rparr>)\<rparr>"
  by (simp add: create_comment_def execute_insert schema_simps nullable_def)

lemma create_comment_overflow:
  "\<not> (sqlite_int (cc_poll_id comment)) \<Longrightarrow> create_comment comment db = (Inl OverflowError, db)"
  by (auto simp: create_comment_def execute_def schema_simps nullable_def)

lemma create_comment_full:
  "sqlite_int (cc_poll_id comment) \<Longrightarrow> \<not> sqlite_int (next_rowid (comments db)) \<Longrightarrow> 
   create_comment comment db = (Inl OperationalError, db)"
  by (simp add: create_comment_def execute_insert_full schema_simps nullable_def)

lemma update_comment_function_overflow:
  "\<not> sqlite_int i \<Longrightarrow> update_comment_function i u db = (Inl OverflowError, db)"
  by (simp add: update_comment_function_def execute_select_id_overflow)

lemma update_comment_function_absent:
  "sqlite_int i \<Longrightarrow> lookup i (comments db) = None \<Longrightarrow>
   update_comment_function i u db =
     (Inl (HTTPException 404 ''Comment not found''),
      db\<lparr>comments := (comments db)\<lparr>executed := executed (comments db) @ [SELECT_FROM_WHERE_id i]\<rparr>\<rparr>)"
  by (simp add: update_comment_function_def execute_select_id fetch_lookup)

lemma update_comment_function_present:
  "sqlite_int i \<Longrightarrow> lookup i (comments db) = Some (old_poll_id, old_content) \<Longrightarrow>
   update_comment_function i u db =
     (Inr \<lparr>c_id = i,
           c_poll_id = old_poll_id,
           c_content = (case cu_content u of Some v \<Rightarrow> Some v | None \<Rightarrow> old_content)\<rparr>,
      db\<lparr>comments := UPDATE_where_id comments_assign
                [SET_content (case cu_content u of Some v \<Rightarrow> Some v | None \<Rightarrow> old_content)] i
             ((comments db)\<lparr>executed := executed (comments db) @
                [SELECT_FROM_WHERE_id i,
                 UPDATE_SET
                [SET_content (case cu_content u of Some v \<Rightarrow> Some v | None \<Rightarrow> old_content)] i]\<rparr>)\<rparr>)"
  by (simp add: update_comment_function_def execute_select_id fetch_lookup execute_update
        schema_simps Let_def UPDATE_where_id_def)

subsection \<open>Team routes\<close>

lemma get_team_overflow: "\<not> sqlite_int i \<Longrightarrow> get_team i db = (Inl OverflowError, db)"
  by (simp add: get_team_def execute_select_id_overflow)

lemma get_team_result:
  "sqlite_int i \<Longrightarrow>
   fst (get_team i db) =
     (case lookup i (teams db) of
        None \<Rightarrow> Inl (HTTPException 404 ''Team not found'')
      | Some c \<Rightarrow> Inr (Team_of_row (i, c)))"
  by (simp add: get_team_def execute_select_id fetch_lookup split: option.splits)

lemma get_team_store:
  "snd (get_team i db) =
     (if sqlite_int i
      then db\<lparr>teams := (teams db)\<lparr>executed := executed (teams db) @ [SELECT_FROM_WHERE_id i]\<rparr>\<rparr>
      else db)"
  by (simp add: get_team_def execute_select_id execute_select_id_overflow split: option.splits)

lemma get_teams_result: "fst (get_teams db) = Inr (map Team_of_row (rows (teams db)))"
  by (simp add: get_teams_def execute_select)

lemma get_teams_store:
  "snd (get_teams db) = db\<lparr>teams := (teams db)\<lparr>executed := executed (teams db) @ [SELECT_FROM]\<rparr>\<rparr>"
  by (simp add: get_teams_def execute_select)

lemma delete_team_overflow: "\<not> sqlite_int i \<Longrightarrow> delete_team i db = (Inl OverflowError, db)"
  by (simp add: delete_team_def execute_delete_overflow)

lemma delete_team_result:
  "sqlite_int i \<Longrightarrow>
   fst (delete_team i db) =
     (if has_row i (teams db) then Inr \<lparr>detail = ''Team deleted successfully''\<rparr>
      else Inl (HTTPException 404 ''Team not found''))"
  using select_length_zero[of i "teams db"] by (simp add: delete_team_def execute_delete)

lemma delete_team_store:
  "snd (delete_team i db) =
     (if sqlite_int i
      then db\<lparr>teams := DELETE_where_id i
                 ((teams db)\<lparr>executed := executed (teams db) @ [DELETE_FROM_WHERE_id i]\<rparr>)\<rparr>
      else db)"
  by (simp add: delete_team_def execute_delete execute_delete_overflow)


lemma create_team_store:
  "sqlite_int (tc_championships team) \<Longrightarrow> sqlite_int (next_rowid (teams db)) \<Longrightarrow> 
   snd (create_team team db) =
     db\<lparr>teams := INSERT (tc_team_name team, tc_city team, Some (tc_championships team))
           ((teams db)\<lparr>executed := executed (teams db) @
              [INSERT_INTO (tc_team_name team, tc_city team, Some (tc_championships team))]\<rparr>)\<rparr>"
  by (simp add: create_team_def execute_insert schema_simps nullable_def)

lemma create_team_overflow:
  "\<not> (sqlite_int (tc_championships team)) \<Longrightarrow> create_team team db = (Inl OverflowError, db)"
  by (auto simp: create_team_def execute_def schema_simps nullable_def)

lemma create_team_full:
  "sqlite_int (tc_championships team) \<Longrightarrow> \<not> sqlite_int (next_rowid (teams db)) \<Longrightarrow> 
   create_team team db = (Inl OperationalError, db)"
  by (simp add: create_team_def execute_insert_full schema_simps nullable_def)

lemma update_team_function_overflow:
  "\<not> sqlite_int i \<Longrightarrow> update_team_function i u db = (Inl OverflowError, db)"
  by (simp add: update_team_function_def execute_select_id_overflow)

lemma update_team_function_absent:
  "sqlite_int i \<Longrightarrow> lookup i (teams db) = None \<Longrightarrow>
   update_team_function i u db =
     (Inl (HTTPException 404 ''Team not found''),
      db\<lparr>teams := (teams db)\<lparr>executed := executed (teams db) @ [SELECT_FROM_WHERE_id i]\<rparr>\<rparr>)"
  by (simp add: update_team_function_def execute_select_id fetch_lookup)

lemma update_team_function_present:
  "sqlite_int i \<Longrightarrow> lookup i (teams db) = Some (old_team_name, old_city, old_championships) \<Longrightarrow>
   list_all sqlite_int (nullable (case tu_championships u of Some v \<Rightarrow> Some v | None \<Rightarrow> old_championships)) \<Longrightarrow> 
   update_team_function i u db =
     (Inr \<lparr>t_id = i,
           t_team_name = (case tu_team_name u of Some v \<Rightarrow> v | None \<Rightarrow> old_team_name),
           t_city = (case tu_city u of Some v \<Rightarrow> v | None \<Rightarrow> old_city),
           t_championships = (case tu_championships u of Some v \<Rightarrow> Some v | None \<Rightarrow> old_championships)\<rparr>,
      db\<lparr>teams := UPDATE_where_id teams_assign
                [SET_team_name (case tu_team_name u of Some v \<Rightarrow> v | None \<Rightarrow> old_team_name),
                 SET_city (case tu_city u of Some v \<Rightarrow> v | None \<Rightarrow> old_city),
                 SET_championships (case tu_championships u of Some v \<Rightarrow> Some v | None \<Rightarrow> old_championships)] i
             ((teams db)\<lparr>executed := executed (teams db) @
                [SELECT_FROM_WHERE_id i,
                 UPDATE_SET
                [SET_team_name (case tu_team_name u of Some v \<Rightarrow> v | None \<Rightarrow> old_team_name),
                 SET_city (case tu_city u of Some v \<Rightarrow> v | None \<Rightarrow> old_city),
                 SET_championships (case tu_championships u of Some v \<Rightarrow> Some v | None \<Rightarrow> old_championships)] i]\<rparr>)\<rparr>)"
  by (simp add: update_team_function_def execute_select_id fetch_lookup execute_update
        schema_simps Let_def UPDATE_where_id_def)

lemma update_team_function_value_overflow:
  "sqlite_int i \<Longrightarrow> lookup i (teams db) = Some (old_team_name, old_city, old_championships) \<Longrightarrow>
   \<not> (list_all sqlite_int (nullable (case tu_championships u of Some v \<Rightarrow> Some v | None \<Rightarrow> old_championships))) \<Longrightarrow>
   update_team_function i u db =
     (Inl OverflowError,
      db\<lparr>teams := (teams db)\<lparr>executed := executed (teams db) @ [SELECT_FROM_WHERE_id i]\<rparr>\<rparr>)"
  by (auto simp: update_team_function_def execute_select_id fetch_lookup execute_overflow
        schema_simps Let_def)

subsection \<open>Player routes\<close>

lemma get_player_overflow: "\<not> sqlite_int i \<Longrightarrow> get_player i db = (Inl OverflowError, db)"
  by (simp add: get_player_def execute_select_id_overflow)

lemma get_player_result:
  "sqlite_int i \<Longrightarrow>
   fst (get_player i db) =
     (case lookup i (players db) of
        None \<Rightarrow> Inl (HTTPException 404 ''Player not found'')
      | Some c \<Rightarrow> Inr (Player_of_row (i, c)))"
  by (simp add: get_player_def execute_select_id fetch_lookup split: option.splits)

lemma get_player_store:
  "snd (get_player i db) =
     (if sqlite_int i
      then db\<lparr>players := (players db)\<lparr>executed := executed (players db) @ [SELECT_FROM_WHERE_id i]\<rparr>\<rparr>
      else db)"
  by (simp add: get_player_def execute_select_id execute_select_id_overflow split: option.splits)

lemma get_players_result: "fst (get_players db) = Inr (map Player_of_row (rows (players db)))"
  by (simp add: get_players_def execute_select)

lemma get_players_store:
  "snd (get_players db) = db\<lparr>players := (players db)\<lparr>executed := executed (players db) @ [SELECT_FROM]\<rparr>\<rparr>"
  by (simp add: get_players_def execute_select)

lemma delete_player_overflow: "\<not> sqlite_int i \<Longrightarrow> delete_player i db = (Inl OverflowError, db)"
  by (simp add: delete_player_def execute_delete_overflow)

lemma delete_player_result:
  "sqlite_int i \<Longrightarrow>
   fst (delete_player i db) =
     (if has_row i (players db) then Inr \<lparr>detail = ''Player deleted successfully''\<rparr>
      else Inl (HTTPException 404 ''Player not found''))"
  using select_length_zero[of i "players db"] by (simp add: delete_player_def execute_delete)

lemma delete_player_store:
  "snd (delete_player i db) =
     (if sqlite_int i
      then db\<lparr>players := DELETE_where_id i
                 ((players db)\<lparr>executed := executed (players db) @ [DELETE_FROM_WHERE_id i]\<rparr>)\<rparr>
      else db)"
  by (simp add: delete_player_def execute_delete execute_delete_overflow)


lemma create_player_store:
  "sqlite_int (plc_jersey_number player) \<Longrightarrow> sqlite_int (plc_team_id player) \<Longrightarrow> sqlite_int (next_rowid (players db)) \<Longrightarrow> 
   snd (create_player player db) =
     db\<lparr>players := INSERT (plc_name player, plc_jersey_number player, plc_position player, Some (plc_team_id player))
           ((players db)\<lparr>executed := executed (players db) @
              [INSERT_INTO (plc_name player, plc_jersey_number player, plc_position player, Some (plc_team_id player))]\<rparr>)\<rparr>"
  by (simp add: create_player_def execute_insert schema_simps nullable_def)

lemma create_player_overflow:
  "\<not> (sqlite_int (plc_jersey_number player) \<and> sqlite_int (plc_team_id player)) \<Longrightarrow> create_player player db = (Inl OverflowError, db)"
  by (auto simp: create_player_def execute_def schema_simps nullable_def)

lemma create_player_full:
  "sqlite_int (plc_jersey_number player) \<Longrightarrow> sqlite_int (plc_team_id player) \<Longrightarrow> \<not> sqlite_int (next_rowid (players db)) \<Longrightarrow> 
   create_player player db = (Inl OperationalError, db)"
  by (simp add: create_player_def execute_insert_full schema_simps nullable_def)

lemma update_player_function_overflow:
  "\<not> sqlite_int i \<Longrightarrow> update_player_function i u db = (Inl OverflowError, db)"
  by (simp add: update_player_function_def execute_select_id_overflow)

lemma update_player_function_absent:
  "sqlite_int i \<Longrightarrow> lookup i (players db) = None \<Longrightarrow>
   update_player_function i u db =
     (Inl (HTTPException 404 ''Player not found''),
      db\<lparr>players := (players db)\<lparr>executed := executed (players db) @ [SELECT_FROM_WHERE_id i]\<rparr>\<rparr>)"
  by (simp add: update_player_function_def execute_select_id fetch_lookup)

lemma update_player_function_present:
  "sqlite_int i \<Longrightarrow> lookup i (players db) = Some (old_name, old_jersey_number, old_position, old_team_id) \<Longrightarrow>
   sqlite_int (case plu_jersey_number u of Some v \<Rightarrow> v | None \<Rightarrow> old_jersey_number) \<Longrightarrow> 
   list_all sqlite_int (nullable (case plu_team_id u of Some v \<Rightarrow> Some v | None \<Rightarrow> old_team_id)) \<Longrightarrow> 
   update_player_function i u db =
     (Inr \<lparr>pl_id = i,
           pl_name = (case plu_name u of Some v \<Rightarrow> v | None \<Rightarrow> old_name),
           pl_jersey_number = (case plu_jersey_number u of Some v \<Rightarrow> v | None \<Rightarrow> old_jersey_number),
           pl_position = (case plu_position u of Some v \<Rightarrow> v | None \<Rightarrow> old_position),
           pl_team_id = (case plu_team_id u of Some v \<Rightarrow> Some v | None \<Rightarrow> old_team_id)\<rparr>,
      db\<lparr>players := UPDATE_where_id players_assign
                [SET_name (case plu_name u of Some v \<Rightarrow> v | None \<Rightarrow> old_name),
                 SET_jersey_number (case plu_jersey_number u of Some v \<Rightarrow> v | None \<Rightarrow> old_jersey_number),
                 SET_position (case plu_position u of Some v \<Rightarrow> v | None \<Rightarrow> old_position),
                 SET_team_id (case plu_team_id u of Some v \<Rightarrow> Some v | None \<Rightarrow> old_team_id)] i
             ((players db)\<lparr>executed := executed (players db) @
                [SELECT_FROM_WHERE_id i,
                 UPDATE_SET
                [SET_name (case plu_name u of Some v \<Rightarrow> v | None \<Rightarrow> old_name),
                 SET_jersey_number (case plu_jersey_number u of Some v \<Rightarrow> v | None \<Rightarrow> old_jersey_number),
                 SET_position (case plu_position u of Some v \<Rightarrow> v | None \<Rightarrow> old_position),
                 SET_team_id (case plu_team_id u of Some v \<Rightarrow> Some v | None \<Rightarrow> old_team_id)] i]\<rparr>)\<rparr>)"
  by (simp add: update_player_function_def execute_select_id fetch_lookup execute_update
        schema_simps Let_def UPDATE_where_id_def)

lemma update_player_function_value_overflow:
  "sqlite_int i \<Longrightarrow> lookup i (players db) = Some (old_name, old_jersey_number, old_position, old_team_id) \<Longrightarrow>
   \<not> (sqlite_int (case plu_jersey_number u of Some v \<Rightarrow> v | None \<Rightarrow> old_jersey_number) \<and> list_all sqlite_int (nullable (case plu_team_id u of Some v \<Rightarrow> Some v | None \<Rightarrow> old_team_id))) \<Longrightarrow>
   update_player_function i u db =
     (Inl OverflowError,
      db\<lparr>players := (players db)\<lparr>executed := executed (players db) @ [SELECT_FROM_WHERE_id i]\<rparr>\<rparr>)"
  by (auto simp: update_player_function_def execute_select_id fetch_lookup execute_overflow
        schema_simps Let_def)
subsection \<open>A route touches its own table only\<close>

lemma create_poll_only: "snd (create_poll poll db) = db\<lparr>polls := polls (snd (create_poll poll db))\<rparr>"
  by (cases "sqlite_int (next_rowid (polls db))")
     (simp_all add: create_poll_store create_poll_full)

lemma get_polls_only: "snd (get_polls db) = db\<lparr>polls := polls (snd (get_polls db))\<rparr>"
  by (simp add: get_polls_store)

lemma get_poll_only: "snd (get_poll i db) = db\<lparr>polls := polls (snd (get_poll i db))\<rparr>"
  by (simp add: get_poll_store)

lemma delete_poll_only: "snd (delete_poll i db) = db\<lparr>polls := polls (snd (delete_poll i db))\<rparr>"
  by (simp add: delete_poll_store)

lemma update_poll_only: "snd (update_poll i u db) = db\<lparr>polls := polls (snd (update_poll i u db))\<rparr>"
proof (cases "sqlite_int i")
  case False
  then show ?thesis
    by (simp add: update_poll_def response_model_snd update_poll_function_overflow)
next
  case fits: True
  show ?thesis
  proof (cases "lookup i (polls db)")
    case None
    with fits show ?thesis
      by (simp add: update_poll_def response_model_snd update_poll_function_absent)
  next
    case (Some c)
    then obtain old_question old_likes where old: "lookup i (polls db) = Some (old_question, old_likes)"
      by (cases c) auto
    from fits old show ?thesis
      by (simp add: update_poll_def response_model_snd update_poll_function_present)
  qed
qed

lemma create_poll_frame:
  "comments (snd (create_poll poll db)) = comments db" "teams (snd (create_poll poll db)) = teams db" "players (snd (create_poll poll db)) = players db"
  by (subst create_poll_only, simp)+

lemma get_polls_frame:
  "comments (snd (get_polls db)) = comments db" "teams (snd (get_polls db)) = teams db" "players (snd (get_polls db)) = players db"
  by (subst get_polls_only, simp)+

lemma get_poll_frame:
  "comments (snd (get_poll i db)) = comments db" "teams (snd (get_poll i db)) = teams db" "players (snd (get_poll i db)) = players db"
  by (subst get_poll_only, simp)+

lemma update_poll_frame:
  "comments (snd (update_poll i u db)) = comments db" "teams (snd (update_poll i u db)) = teams db" "players (snd (update_poll i u db)) = players db"
  by (subst update_poll_only, simp)+

lemma delete_poll_frame:
  "comments (snd (delete_poll i db)) = comments db" "teams (snd (delete_poll i db)) = teams db" "players (snd (delete_poll i db)) = players db"
  by (subst delete_poll_only, simp)+


lemma create_comment_only: "snd (create_comment comment db) = db\<lparr>comments := comments (snd (create_comment comment db))\<rparr>"
  by (cases "sqlite_int (cc_poll_id comment)"; cases "sqlite_int (next_rowid (comments db))")
     (simp_all add: create_comment_store create_comment_overflow create_comment_full)

lemma get_comments_only: "snd (get_comments db) = db\<lparr>comments := comments (snd (get_comments db))\<rparr>"
  by (simp add: get_comments_store)

lemma get_comment_only: "snd (get_comment i db) = db\<lparr>comments := comments (snd (get_comment i db))\<rparr>"
  by (simp add: get_comment_store)

lemma delete_comment_only: "snd (delete_comment i db) = db\<lparr>comments := comments (snd (delete_comment i db))\<rparr>"
  by (simp add: delete_comment_store)

lemma update_comment_only: "snd (update_comment i u db) = db\<lparr>comments := comments (snd (update_comment i u db))\<rparr>"
proof (cases "sqlite_int i")
  case False
  then show ?thesis
    by (simp add: update_comment_def response_model_snd update_comment_function_overflow)
next
  case fits: True
  show ?thesis
  proof (cases "lookup i (comments db)")
    case None
    with fits show ?thesis
      by (simp add: update_comment_def response_model_snd update_comment_function_absent)
  next
    case (Some c)
    then obtain old_poll_id old_content where old: "lookup i (comments db) = Some (old_poll_id, old_content)"
      by (cases c) auto
    from fits old show ?thesis
      by (simp add: update_comment_def response_model_snd update_comment_function_present)
  qed
qed

lemma create_comment_frame:
  "polls (snd (create_comment comment db)) = polls db" "teams (snd (create_comment comment db)) = teams db" "players (snd (create_comment comment db)) = players db"
  by (subst create_comment_only, simp)+

lemma get_comments_frame:
  "polls (snd (get_comments db)) = polls db" "teams (snd (get_comments db)) = teams db" "players (snd (get_comments db)) = players db"
  by (subst get_comments_only, simp)+

lemma get_comment_frame:
  "polls (snd (get_comment i db)) = polls db" "teams (snd (get_comment i db)) = teams db" "players (snd (get_comment i db)) = players db"
  by (subst get_comment_only, simp)+

lemma update_comment_frame:
  "polls (snd (update_comment i u db)) = polls db" "teams (snd (update_comment i u db)) = teams db" "players (snd (update_comment i u db)) = players db"
  by (subst update_comment_only, simp)+

lemma delete_comment_frame:
  "polls (snd (delete_comment i db)) = polls db" "teams (snd (delete_comment i db)) = teams db" "players (snd (delete_comment i db)) = players db"
  by (subst delete_comment_only, simp)+


lemma create_team_only: "snd (create_team team db) = db\<lparr>teams := teams (snd (create_team team db))\<rparr>"
  by (cases "sqlite_int (tc_championships team)"; cases "sqlite_int (next_rowid (teams db))")
     (simp_all add: create_team_store create_team_overflow create_team_full)

lemma get_teams_only: "snd (get_teams db) = db\<lparr>teams := teams (snd (get_teams db))\<rparr>"
  by (simp add: get_teams_store)

lemma get_team_only: "snd (get_team i db) = db\<lparr>teams := teams (snd (get_team i db))\<rparr>"
  by (simp add: get_team_store)

lemma delete_team_only: "snd (delete_team i db) = db\<lparr>teams := teams (snd (delete_team i db))\<rparr>"
  by (simp add: delete_team_store)

lemma update_team_only: "snd (update_team i u db) = db\<lparr>teams := teams (snd (update_team i u db))\<rparr>"
proof (cases "sqlite_int i")
  case False
  then show ?thesis
    by (simp add: update_team_def response_model_snd update_team_function_overflow)
next
  case fits: True
  show ?thesis
  proof (cases "lookup i (teams db)")
    case None
    with fits show ?thesis
      by (simp add: update_team_def response_model_snd update_team_function_absent)
  next
    case (Some c)
    then obtain old_team_name old_city old_championships where old: "lookup i (teams db) = Some (old_team_name, old_city, old_championships)"
      by (cases c) auto
    show ?thesis
      by (cases "list_all sqlite_int (nullable (case tu_championships u of Some v \<Rightarrow> Some v | None \<Rightarrow> old_championships))")
         (use fits old in \<open>simp_all add: update_team_def response_model_snd
            update_team_function_present update_team_function_value_overflow\<close>)
  qed
qed

lemma create_team_frame:
  "polls (snd (create_team team db)) = polls db" "comments (snd (create_team team db)) = comments db" "players (snd (create_team team db)) = players db"
  by (subst create_team_only, simp)+

lemma get_teams_frame:
  "polls (snd (get_teams db)) = polls db" "comments (snd (get_teams db)) = comments db" "players (snd (get_teams db)) = players db"
  by (subst get_teams_only, simp)+

lemma get_team_frame:
  "polls (snd (get_team i db)) = polls db" "comments (snd (get_team i db)) = comments db" "players (snd (get_team i db)) = players db"
  by (subst get_team_only, simp)+

lemma update_team_frame:
  "polls (snd (update_team i u db)) = polls db" "comments (snd (update_team i u db)) = comments db" "players (snd (update_team i u db)) = players db"
  by (subst update_team_only, simp)+

lemma delete_team_frame:
  "polls (snd (delete_team i db)) = polls db" "comments (snd (delete_team i db)) = comments db" "players (snd (delete_team i db)) = players db"
  by (subst delete_team_only, simp)+


lemma create_player_only: "snd (create_player player db) = db\<lparr>players := players (snd (create_player player db))\<rparr>"
  by (cases "sqlite_int (plc_jersey_number player) \<and> sqlite_int (plc_team_id player)"; cases "sqlite_int (next_rowid (players db))")
     (simp_all add: create_player_store create_player_overflow create_player_full)

lemma get_players_only: "snd (get_players db) = db\<lparr>players := players (snd (get_players db))\<rparr>"
  by (simp add: get_players_store)

lemma get_player_only: "snd (get_player i db) = db\<lparr>players := players (snd (get_player i db))\<rparr>"
  by (simp add: get_player_store)

lemma delete_player_only: "snd (delete_player i db) = db\<lparr>players := players (snd (delete_player i db))\<rparr>"
  by (simp add: delete_player_store)

lemma update_player_only: "snd (update_player i u db) = db\<lparr>players := players (snd (update_player i u db))\<rparr>"
proof (cases "sqlite_int i")
  case False
  then show ?thesis
    by (simp add: update_player_def response_model_snd update_player_function_overflow)
next
  case fits: True
  show ?thesis
  proof (cases "lookup i (players db)")
    case None
    with fits show ?thesis
      by (simp add: update_player_def response_model_snd update_player_function_absent)
  next
    case (Some c)
    then obtain old_name old_jersey_number old_position old_team_id where old: "lookup i (players db) = Some (old_name, old_jersey_number, old_position, old_team_id)"
      by (cases c) auto
    show ?thesis
      by (cases "sqlite_int (case plu_jersey_number u of Some v \<Rightarrow> v | None \<Rightarrow> old_jersey_number) \<and> list_all sqlite_int (nullable (case plu_team_id u of Some v \<Rightarrow> Some v | None \<Rightarrow> old_team_id))")
         (use fits old in \<open>simp_all add: update_player_def response_model_snd
            update_player_function_present update_player_function_value_overflow\<close>)
  qed
qed

lemma create_player_frame:
  "polls (snd (create_player player db)) = polls db" "comments (snd (create_player player db)) = comments db" "teams (snd (create_player player db)) = teams db"
  by (subst create_player_only, simp)+

lemma get_players_frame:
  "polls (snd (get_players db)) = polls db" "comments (snd (get_players db)) = comments db" "teams (snd (get_players db)) = teams db"
  by (subst get_players_only, simp)+

lemma get_player_frame:
  "polls (snd (get_player i db)) = polls db" "comments (snd (get_player i db)) = comments db" "teams (snd (get_player i db)) = teams db"
  by (subst get_player_only, simp)+

lemma update_player_frame:
  "polls (snd (update_player i u db)) = polls db" "comments (snd (update_player i u db)) = comments db" "teams (snd (update_player i u db)) = teams db"
  by (subst update_player_only, simp)+

lemma delete_player_frame:
  "polls (snd (delete_player i db)) = polls db" "comments (snd (delete_player i db)) = comments db" "teams (snd (delete_player i db)) = teams db"
  by (subst delete_player_only, simp)+

subsection \<open>What a request can do to a table\<close>

lemma polls_serve_cases:
  assumes same: "P (rows (polls db))"
    and inserted: "\<And>q. P (rows (polls db) @ [(next_rowid (polls db), (q, Some 0))])"
    and updated: "\<And>q i. P (map (\<lambda>r. if fst r = i
            then (fst r, fold polls_assign [SET_question q] (snd r)) else r) (rows (polls db)))"
    and deleted: "\<And>i. P (filter (\<lambda>r. fst r \<noteq> i) (rows (polls db)))"
  shows "P (rows (polls (serve req db)))"
proof (cases req)
  case (POST_polls poll)
  show ?thesis
  proof (cases "sqlite_int (next_rowid (polls db))")
    case True
    with POST_polls inserted show ?thesis
      by (simp add: create_poll_store rows_INSERT next_rowid_executed)
  next
    case False
    with POST_polls same show ?thesis by (simp add: create_poll_full)
  qed
next
  case GET_polls
  with same show ?thesis by (simp add: get_polls_store)
next
  case (GET_poll i)
  with same show ?thesis by (simp add: get_poll_store)
next
  case (PUT_poll i u)
  show ?thesis
  proof (cases "sqlite_int i")
    case False
    with PUT_poll same show ?thesis
      by (simp add: update_poll_def response_model_snd update_poll_function_overflow)
  next
    case fits: True
    show ?thesis
    proof (cases "lookup i (polls db)")
      case None
      with PUT_poll fits same show ?thesis
        by (simp add: update_poll_def response_model_snd update_poll_function_absent)
    next
      case (Some c)
      then obtain old_question old_likes where old: "lookup i (polls db) = Some (old_question, old_likes)"
        by (cases c) auto
    from PUT_poll fits old updated show ?thesis
      by (simp add: update_poll_def response_model_snd update_poll_function_present rows_UPDATE)
    qed
  qed
next
  case (DELETE_poll i)
  with same deleted show ?thesis by (simp add: delete_poll_store rows_DELETE)
qed (use same in \<open>simp_all add: create_comment_frame get_comments_frame get_comment_frame update_comment_frame delete_comment_frame create_team_frame get_teams_frame get_team_frame update_team_frame delete_team_frame create_player_frame get_players_frame get_player_frame update_player_frame delete_player_frame\<close>)

lemma comments_serve_cases:
  assumes same: "P (rows (comments db))"
    and inserted: "\<And>p c. P (rows (comments db) @ [(next_rowid (comments db), (Some p, Some c))])"
    and updated: "\<And>c i. P (map (\<lambda>r. if fst r = i
            then (fst r, fold comments_assign [SET_content c] (snd r)) else r) (rows (comments db)))"
    and deleted: "\<And>i. P (filter (\<lambda>r. fst r \<noteq> i) (rows (comments db)))"
  shows "P (rows (comments (serve req db)))"
proof (cases req)
  case (POST_comments comment)
  show ?thesis
  proof (cases "sqlite_int (cc_poll_id comment)")
    case fits: True
    show ?thesis
    proof (cases "sqlite_int (next_rowid (comments db))")
      case True
      with POST_comments fits inserted show ?thesis
        by (simp add: create_comment_store rows_INSERT next_rowid_executed)
    next
      case False
      with POST_comments fits same show ?thesis by (simp add: create_comment_full)
    qed
  next
    case False
    with POST_comments same show ?thesis by (simp add: create_comment_overflow)
  qed
next
  case GET_comments
  with same show ?thesis by (simp add: get_comments_store)
next
  case (GET_comment i)
  with same show ?thesis by (simp add: get_comment_store)
next
  case (PUT_comment i u)
  show ?thesis
  proof (cases "sqlite_int i")
    case False
    with PUT_comment same show ?thesis
      by (simp add: update_comment_def response_model_snd update_comment_function_overflow)
  next
    case fits: True
    show ?thesis
    proof (cases "lookup i (comments db)")
      case None
      with PUT_comment fits same show ?thesis
        by (simp add: update_comment_def response_model_snd update_comment_function_absent)
    next
      case (Some c)
      then obtain old_poll_id old_content where old: "lookup i (comments db) = Some (old_poll_id, old_content)"
        by (cases c) auto
    from PUT_comment fits old updated show ?thesis
      by (simp add: update_comment_def response_model_snd update_comment_function_present rows_UPDATE)
    qed
  qed
next
  case (DELETE_comment i)
  with same deleted show ?thesis by (simp add: delete_comment_store rows_DELETE)
qed (use same in \<open>simp_all add: create_poll_frame get_polls_frame get_poll_frame update_poll_frame delete_poll_frame create_team_frame get_teams_frame get_team_frame update_team_frame delete_team_frame create_player_frame get_players_frame get_player_frame update_player_frame delete_player_frame\<close>)

lemma teams_serve_cases:
  assumes same: "P (rows (teams db))"
    and inserted: "\<And>c. P (rows (teams db) @ [(next_rowid (teams db), c)])"
    and updated: "\<And>s i. P (map (\<lambda>r. if fst r = i
            then (fst r, fold teams_assign s (snd r)) else r) (rows (teams db)))"
    and deleted: "\<And>i. P (filter (\<lambda>r. fst r \<noteq> i) (rows (teams db)))"
  shows "P (rows (teams (serve req db)))"
proof (cases req)
  case (POST_teams team)
  show ?thesis
  proof (cases "sqlite_int (tc_championships team)")
    case fits: True
    show ?thesis
    proof (cases "sqlite_int (next_rowid (teams db))")
      case True
      with POST_teams fits inserted show ?thesis
        by (simp add: create_team_store rows_INSERT next_rowid_executed)
    next
      case False
      with POST_teams fits same show ?thesis by (simp add: create_team_full)
    qed
  next
    case False
    with POST_teams same show ?thesis by (simp add: create_team_overflow)
  qed
next
  case GET_teams
  with same show ?thesis by (simp add: get_teams_store)
next
  case (GET_team i)
  with same show ?thesis by (simp add: get_team_store)
next
  case (PUT_team i u)
  show ?thesis
  proof (cases "sqlite_int i")
    case False
    with PUT_team same show ?thesis
      by (simp add: update_team_def response_model_snd update_team_function_overflow)
  next
    case fits: True
    show ?thesis
    proof (cases "lookup i (teams db)")
      case None
      with PUT_team fits same show ?thesis
        by (simp add: update_team_def response_model_snd update_team_function_absent)
    next
      case (Some c)
      then obtain old_team_name old_city old_championships where old: "lookup i (teams db) = Some (old_team_name, old_city, old_championships)"
        by (cases c) auto
      show ?thesis
      proof (cases "list_all sqlite_int (nullable (case tu_championships u of Some v \<Rightarrow> Some v | None \<Rightarrow> old_championships))")
        case True
        with PUT_team fits old updated show ?thesis
          by (simp add: update_team_def response_model_snd update_team_function_present rows_UPDATE)
      next
        case False
        with PUT_team fits old same show ?thesis
          by (simp add: update_team_def response_model_snd update_team_function_value_overflow)
      qed
    qed
  qed
next
  case (DELETE_team i)
  with same deleted show ?thesis by (simp add: delete_team_store rows_DELETE)
qed (use same in \<open>simp_all add: create_poll_frame get_polls_frame get_poll_frame update_poll_frame delete_poll_frame create_comment_frame get_comments_frame get_comment_frame update_comment_frame delete_comment_frame create_player_frame get_players_frame get_player_frame update_player_frame delete_player_frame\<close>)

lemma players_serve_cases:
  assumes same: "P (rows (players db))"
    and inserted: "\<And>c. P (rows (players db) @ [(next_rowid (players db), c)])"
    and updated: "\<And>s i. P (map (\<lambda>r. if fst r = i
            then (fst r, fold players_assign s (snd r)) else r) (rows (players db)))"
    and deleted: "\<And>i. P (filter (\<lambda>r. fst r \<noteq> i) (rows (players db)))"
  shows "P (rows (players (serve req db)))"
proof (cases req)
  case (POST_players player)
  show ?thesis
  proof (cases "sqlite_int (plc_jersey_number player) \<and> sqlite_int (plc_team_id player)")
    case fits: True
    show ?thesis
    proof (cases "sqlite_int (next_rowid (players db))")
      case True
      with POST_players fits inserted show ?thesis
        by (simp add: create_player_store rows_INSERT next_rowid_executed)
    next
      case False
      with POST_players fits same show ?thesis by (simp add: create_player_full)
    qed
  next
    case False
    with POST_players same show ?thesis by (simp add: create_player_overflow)
  qed
next
  case GET_players
  with same show ?thesis by (simp add: get_players_store)
next
  case (GET_player i)
  with same show ?thesis by (simp add: get_player_store)
next
  case (PUT_player i u)
  show ?thesis
  proof (cases "sqlite_int i")
    case False
    with PUT_player same show ?thesis
      by (simp add: update_player_def response_model_snd update_player_function_overflow)
  next
    case fits: True
    show ?thesis
    proof (cases "lookup i (players db)")
      case None
      with PUT_player fits same show ?thesis
        by (simp add: update_player_def response_model_snd update_player_function_absent)
    next
      case (Some c)
      then obtain old_name old_jersey_number old_position old_team_id where old: "lookup i (players db) = Some (old_name, old_jersey_number, old_position, old_team_id)"
        by (cases c) auto
      show ?thesis
      proof (cases "sqlite_int (case plu_jersey_number u of Some v \<Rightarrow> v | None \<Rightarrow> old_jersey_number) \<and> list_all sqlite_int (nullable (case plu_team_id u of Some v \<Rightarrow> Some v | None \<Rightarrow> old_team_id))")
        case True
        with PUT_player fits old updated show ?thesis
          by (simp add: update_player_def response_model_snd update_player_function_present rows_UPDATE)
      next
        case False
        with PUT_player fits old same show ?thesis
          by (simp add: update_player_def response_model_snd update_player_function_value_overflow)
      qed
    qed
  qed
next
  case (DELETE_player i)
  with same deleted show ?thesis by (simp add: delete_player_store rows_DELETE)
qed (use same in \<open>simp_all add: create_poll_frame get_polls_frame get_poll_frame update_poll_frame delete_poll_frame create_comment_frame get_comments_frame get_comment_frame update_comment_frame delete_comment_frame create_team_frame get_teams_frame get_team_frame update_team_frame delete_team_frame\<close>)
subsection \<open>Invariants of the reachable stores\<close>

lemma polls_assign_question_likes: "snd (polls_assign (SET_question q) c) = snd c"
  by (cases c) simp

lemma comments_assign_content_poll_id: "fst (comments_assign (SET_content v) c) = fst c"
  by (cases c) simp

lemma likes_zero_serve:
  assumes "\<forall>r\<in>set (rows (polls db)). snd (snd r) = Some 0"
  shows "\<forall>r\<in>set (rows (polls (serve req db))). snd (snd r) = Some 0"
proof (rule polls_serve_cases)
  show "\<forall>r\<in>set (rows (polls db)). snd (snd r) = Some 0" by (rule assms)
next
  fix q
  show "\<forall>r\<in>set (rows (polls db) @ [(next_rowid (polls db), q, Some 0)]). snd (snd r) = Some 0"
    using assms by simp
next
  fix q i
  show "\<forall>r\<in>set (map (\<lambda>r. if fst r = i
            then (fst r, fold polls_assign [SET_question q] (snd r)) else r) (rows (polls db))).
          snd (snd r) = Some 0"
    using assms by (auto simp: polls_assign_question_likes)
next
  fix i
  show "\<forall>r\<in>set (filter (\<lambda>r. fst r \<noteq> i) (rows (polls db))). snd (snd r) = Some 0"
    using assms by simp
qed

lemma reachable_likes_zero:
  "reachable db \<Longrightarrow> \<forall>r\<in>set (rows (polls db)). snd (snd r) = Some 0"
proof (induction rule: reachable.induct)
  case start
  show ?case by (simp add: init_db_def empty_table_def)
next
  case (request db req)
  then show ?case by (intro likes_zero_serve)
qed

lemma distinct_keys_map:
  "distinct (map fst rs) \<Longrightarrow>
   distinct (map fst (map (\<lambda>r. if fst r = i then (fst r, f (snd r)) else r) rs))"
proof -
  have "map fst (map (\<lambda>r. if fst r = i then (fst r, f (snd r)) else r) rs) = map fst rs"
    by (induction rs) auto
  then show "distinct (map fst rs) \<Longrightarrow> ?thesis" by (simp only:)
qed

lemma distinct_keys_filter: "distinct (map fst rs) \<Longrightarrow> distinct (map fst (filter P rs))"
  by (simp add: distinct_map_filter)

lemma reachable_primary_key:
  "reachable db \<Longrightarrow>
   primary_key (polls db) \<and> primary_key (comments db)
   \<and> primary_key (teams db) \<and> primary_key (players db)"
proof (induction rule: reachable.induct)
  case start
  show ?case by (simp add: init_db_def empty_table_def primary_key_def)
next
  case (request db req)
  have "distinct (map fst (rows (polls (serve req db))))"
    by (rule polls_serve_cases)
       (use request.IH next_rowid_fresh[of "polls db"] in
         \<open>simp_all add: primary_key_def distinct_keys_map distinct_keys_filter del: map_map\<close>)
  moreover have "distinct (map fst (rows (comments (serve req db))))"
    by (rule comments_serve_cases)
       (use request.IH next_rowid_fresh[of "comments db"] in
         \<open>simp_all add: primary_key_def distinct_keys_map distinct_keys_filter del: map_map\<close>)
  moreover have "distinct (map fst (rows (teams (serve req db))))"
    by (rule teams_serve_cases)
       (use request.IH next_rowid_fresh[of "teams db"] in
         \<open>simp_all add: primary_key_def distinct_keys_map distinct_keys_filter del: map_map\<close>)
  moreover have "distinct (map fst (rows (players (serve req db))))"
    by (rule players_serve_cases)
       (use request.IH next_rowid_fresh[of "players db"] in
         \<open>simp_all add: primary_key_def distinct_keys_map distinct_keys_filter del: map_map\<close>)
  ultimately show ?case by (simp add: primary_key_def)
qed

lemma get_poll_Inr:
  assumes "fst (get_poll i db) = Inr p"
  shows "sqlite_int i \<and> lookup i (polls db) = Some (p_question p, p_likes p) \<and> p_id p = i"
proof -
  have fits: "sqlite_int i"
    using assms get_poll_overflow[of i db] by (cases "sqlite_int i") auto
  with assms show ?thesis
    by (auto simp: get_poll_result Poll_of_row_def split: option.splits)
qed

lemma get_comment_Inr:
  assumes "fst (get_comment i db) = Inr c"
  shows "sqlite_int i \<and> lookup i (comments db) = Some (c_poll_id c, c_content c) \<and> c_id c = i"
proof -
  have fits: "sqlite_int i"
    using assms get_comment_overflow[of i db] by (cases "sqlite_int i") auto
  with assms show ?thesis
    by (auto simp: get_comment_result Comment_of_row_def split: option.splits)
qed

lemma serve_keeps_likes:
  assumes before: "fst (get_poll i db) = Inr before"
    and after: "fst (get_poll i (serve req db)) = Inr after"
  shows "p_likes after = p_likes before"
proof -
  let ?P = "\<lambda>rs. \<forall>q l. find (\<lambda>r. fst r = i) rs = Some (i, q, l) \<longrightarrow> l = p_likes before"
  have sel: "find (\<lambda>r. fst r = i) (rows (polls db)) = Some (i, p_question before, p_likes before)"
    using get_poll_Inr[OF before] by (simp add: lookup_Some)
  have "?P (rows (polls (serve req db)))"
  proof (rule polls_serve_cases)
    show "?P (rows (polls db))" using sel by simp
  next
    fix q show "?P (rows (polls db) @ [(next_rowid (polls db), q, Some 0)])"
      using sel by (simp add: find_app)
  next
    fix q j
    show "?P (map (\<lambda>r. if fst r = j
            then (fst r, fold polls_assign [SET_question q] (snd r)) else r) (rows (polls db)))"
      using sel by (simp add: find_key_map)
  next
    fix j show "?P (filter (\<lambda>r. fst r \<noteq> j) (rows (polls db)))"
      using sel by (simp add: find_key_filter)
  qed
  then show ?thesis using get_poll_Inr[OF after] by (simp add: lookup_Some)
qed

lemma serve_keeps_poll_id:
  assumes before: "fst (get_comment i db) = Inr before"
    and after: "fst (get_comment i (serve req db)) = Inr after"
  shows "c_poll_id after = c_poll_id before"
proof -
  let ?P = "\<lambda>rs. \<forall>p c. find (\<lambda>r. fst r = i) rs = Some (i, p, c) \<longrightarrow> p = c_poll_id before"
  have sel: "find (\<lambda>r. fst r = i) (rows (comments db)) =
               Some (i, c_poll_id before, c_content before)"
    using get_comment_Inr[OF before] by (simp add: lookup_Some)
  have "?P (rows (comments (serve req db)))"
  proof (rule comments_serve_cases)
    show "?P (rows (comments db))" using sel by simp
  next
    fix p c show "?P (rows (comments db) @ [(next_rowid (comments db), Some p, Some c)])"
      using sel by (simp add: find_app)
  next
    fix c j
    show "?P (map (\<lambda>r. if fst r = j
            then (fst r, fold comments_assign [SET_content c] (snd r)) else r)
            (rows (comments db)))"
      using sel by (simp add: find_key_map)
  next
    fix j show "?P (filter (\<lambda>r. fst r \<noteq> j) (rows (comments db)))"
      using sel by (simp add: find_key_filter)
  qed
  then show ?thesis using get_comment_Inr[OF after] by (simp add: lookup_Some)
qed

subsection \<open>The example store\<close>

lemma scenario_rows:
  "rows (polls scenario_db) = [(1, ''Best sport?'', Some 0)]"
  "rows (comments scenario_db) = [(1, Some 999, Some ''hi'')]"
  "rows (teams scenario_db) = [(1, ''Hawks'', ''Atlanta'', Some 1)]"
  "rows (players scenario_db) = [(1, ''Ann'', 7, ''guard'', Some 1)]"
  by (simp_all add: scenario_db_def init_db_def empty_table_def create_poll_def
        create_comment_def create_team_def create_player_def execute_def schema_simps
        nullable_def sqlite_int_def INSERT_def next_rowid_def Let_def)



lemma scenario_lookup:
  "lookup 1 (polls scenario_db) = Some (''Best sport?'', Some 0)"
  "lookup 1 (comments scenario_db) = Some (Some 999, Some ''hi'')"
  "lookup 1 (teams scenario_db) = Some (''Hawks'', ''Atlanta'', Some 1)"
  "lookup 1 (players scenario_db) = Some (''Ann'', 7, ''guard'', Some 1)"
  by (simp_all add: lookup_def scenario_rows)

lemma scenario_has_row:
  "has_row i (polls scenario_db) \<longleftrightarrow> i = 1"
  "has_row i (comments scenario_db) \<longleftrightarrow> i = 1"
  "has_row i (teams scenario_db) \<longleftrightarrow> i = 1"
  "has_row i (players scenario_db) \<longleftrightarrow> i = 1"
  by (auto simp: scenario_rows has_row_def)

lemma sqlite_int_small: "sqlite_int 0" "sqlite_int 1" "sqlite_int 2" "sqlite_int 7"
  "sqlite_int 9" "sqlite_int 18" "sqlite_int 999"
  by (simp_all add: sqlite_int_def)

lemma sqlite_int_large: "\<not> sqlite_int 9223372036854775808"
  by (simp add: sqlite_int_def)

lemma scenario_get:
  "fst (get_poll 1 scenario_db) = Inr \<lparr>p_id = 1, p_question = ''Best sport?'', p_likes = Some 0\<rparr>"
  "fst (get_comment 1 scenario_db) = Inr \<lparr>c_id = 1, c_poll_id = Some 999, c_content = Some ''hi''\<rparr>"
  "fst (get_team 1 scenario_db) =
     Inr \<lparr>t_id = 1, t_team_name = ''Hawks'', t_city = ''Atlanta'', t_championships = Some 1\<rparr>"
  "fst (get_player 1 scenario_db) =
     Inr \<lparr>pl_id = 1, pl_name = ''Ann'', pl_jersey_number = 7, pl_position = ''guard'',
          pl_team_id = Some 1\<rparr>"
  by (simp_all add: get_poll_result get_comment_result get_team_result get_player_result
        sqlite_int_small scenario_lookup Poll_of_row_def Comment_of_row_def Team_of_row_def
        Player_of_row_def)

lemma scenario_primary_key:
  "primary_key (polls scenario_db)" "primary_key (comments scenario_db)"
  "primary_key (teams scenario_db)" "primary_key (players scenario_db)"
  by (simp_all add: scenario_rows primary_key_def)

lemma reachable_scenario_db: "reachable scenario_db"
  unfolding scenario_db_def by (intro reachable.request reachable.start)

lemma scenario_lists:
  "fst (get_polls scenario_db) = Inr [\<lparr>p_id = 1, p_question = ''Best sport?'', p_likes = Some 0\<rparr>]"
  "fst (get_comments scenario_db) =
     Inr [\<lparr>c_id = 1, c_poll_id = Some 999, c_content = Some ''hi''\<rparr>]"
  "fst (get_teams scenario_db) =
     Inr [\<lparr>t_id = 1, t_team_name = ''Hawks'', t_city = ''Atlanta'', t_championships = Some 1\<rparr>]"
  "fst (get_players scenario_db) =
     Inr [\<lparr>pl_id = 1, pl_name = ''Ann'', pl_jersey_number = 7, pl_position = ''guard'',
           pl_team_id = Some 1\<rparr>]"
  by (simp_all add: get_polls_result get_comments_result get_teams_result get_players_result
        scenario_rows Poll_of_row_def Comment_of_row_def Team_of_row_def Player_of_row_def)

subsection \<open>The stored row after an update\<close>

lemma lookup_UPDATE_executed:
  assumes "lookup i t = Some c"
  shows "lookup i (UPDATE_where_id f sets i (t\<lparr>executed := e\<rparr>)) = Some (fold f sets c)"
proof -
  have "find (\<lambda>r. fst r = i) (rows t) = Some (i, c)"
    using assms by (simp add: lookup_Some)
  then show ?thesis
    by (simp add: lookup_def rows_UPDATE find_key_map)
qed

lemma has_row_DELETE_executed: "\<not> has_row i (DELETE_where_id i (t\<lparr>executed := e\<rparr>))"
  by (auto simp: has_row_def rows_DELETE)


lemma has_row_executed: "has_row i (t\<lparr>executed := e\<rparr>) = has_row i t"
  by (simp add: has_row_def)


lemma update_comment_stored:
  "sqlite_int i \<Longrightarrow> lookup i (comments db) = Some (old_poll_id, old_content) \<Longrightarrow> 
   lookup i (comments (snd (update_comment i u db))) =
     Some (old_poll_id,
           (case cu_content u of Some v \<Rightarrow> Some v | None \<Rightarrow> old_content))"
  by (simp add: update_comment_def response_model_snd update_comment_function_present lookup_UPDATE_executed)


lemma update_poll_merges:
  "sqlite_int i \<Longrightarrow> lookup i (polls db) = Some (old_question, old_likes) \<Longrightarrow> 
   fst (update_poll_function i u db) =
     Inr \<lparr>p_id = i,
          p_question = (case pu_question u of Some v \<Rightarrow> v | None \<Rightarrow> old_question),
          p_likes = old_likes\<rparr>"
  "sqlite_int i \<Longrightarrow> lookup i (polls db) = Some (old_question, old_likes) \<Longrightarrow> 
   fst (update_poll i u db) =
     Inr (PollUpdate_fields
          \<lparr>p_id = i,
           p_question = (case pu_question u of Some v \<Rightarrow> v | None \<Rightarrow> old_question),
           p_likes = old_likes\<rparr>)"
  "sqlite_int i \<Longrightarrow> lookup i (polls db) = Some (old_question, old_likes) \<Longrightarrow> 
   fst (get_poll i (snd (update_poll i u db))) =
     Inr \<lparr>p_id = i,
          p_question = (case pu_question u of Some v \<Rightarrow> v | None \<Rightarrow> old_question),
          p_likes = old_likes\<rparr>"
  "sqlite_int i \<Longrightarrow> lookup i (polls db) = Some (old_question, old_likes) \<Longrightarrow> 
   executed (polls (snd (update_poll i u db))) =
     executed (polls db) @
       [SELECT_FROM_WHERE_id i,
        UPDATE_SET [SET_question (case pu_question u of Some v \<Rightarrow> v | None \<Rightarrow> old_question)] i]"
  by (simp_all add: update_poll_function_present update_poll_def response_model_fst
        response_model_snd get_poll_result lookup_UPDATE_executed Poll_of_row_def executed_UPDATE)

lemma update_comment_merges:
  "sqlite_int i \<Longrightarrow> lookup i (comments db) = Some (old_poll_id, old_content) \<Longrightarrow> 
   fst (update_comment_function i u db) =
     Inr \<lparr>c_id = i,
          c_poll_id = old_poll_id,
          c_content = (case cu_content u of Some v \<Rightarrow> Some v | None \<Rightarrow> old_content)\<rparr>"
  "sqlite_int i \<Longrightarrow> lookup i (comments db) = Some (old_poll_id, old_content) \<Longrightarrow> 
   fst (update_comment i u db) =
     Inr (CommentUpdate_fields
          \<lparr>c_id = i,
           c_poll_id = old_poll_id,
           c_content = (case cu_content u of Some v \<Rightarrow> Some v | None \<Rightarrow> old_content)\<rparr>)"
  "sqlite_int i \<Longrightarrow> lookup i (comments db) = Some (old_poll_id, old_content) \<Longrightarrow> 
   fst (get_comment i (snd (update_comment i u db))) =
     Inr \<lparr>c_id = i,
          c_poll_id = old_poll_id,
          c_content = (case cu_content u of Some v \<Rightarrow> Some v | None \<Rightarrow> old_content)\<rparr>"
  "sqlite_int i \<Longrightarrow> lookup i (comments db) = Some (old_poll_id, old_content) \<Longrightarrow> 
   executed (comments (snd (update_comment i u db))) =
     executed (comments db) @
       [SELECT_FROM_WHERE_id i,
        UPDATE_SET [SET_content (case cu_content u of Some v \<Rightarrow> Some v | None \<Rightarrow> old_content)] i]"
  by (simp_all add: update_comment_function_present update_comment_def response_model_fst
        response_model_snd get_comment_result lookup_UPDATE_executed Comment_of_row_def executed_UPDATE)


section \<open>The claims of the specification\<close>







text \<open>
  C3, as the specification states it: every id without a row is answered 404. The id
  \<open>2\<^sup>6\<^sup>3\<close> has no row in the example store, and a get of it raises \<^verbatim>\<open>OverflowError\<close>,
  which is answered 500.
\<close>

theorem missing_id_out_of_range_counterexample:
  "\<not> has_row 9223372036854775808 (polls scenario_db)
   \<and> fst (get_poll 9223372036854775808 scenario_db) = Inl OverflowError
   \<and> fst (update_poll 9223372036854775808 \<lparr>pu_question = None\<rparr> scenario_db) = Inl OverflowError
   \<and> fst (delete_poll 9223372036854775808 scenario_db) = Inl OverflowError"
  by (simp add: scenario_has_row get_poll_overflow delete_poll_overflow update_poll_def
        response_model_fst update_poll_function_overflow sqlite_int_large)

text \<open>
  C3, amended. For every resource and every id that is a signed 64-bit value and has no
  row in the table, the get, update and delete routes each raise \<^verbatim>\<open>HTTPException\<close> with
  status 404 and the message of the resource, and return no record.
\<close>

theorem missing_id_not_found:
  "(sqlite_int i \<and> \<not> has_row i (polls db) \<longrightarrow>
      fst (get_poll i db) = Inl (HTTPException 404 ''Poll not found'')
      \<and> fst (update_poll i poll_update db) = Inl (HTTPException 404 ''Poll not found'')
      \<and> fst (delete_poll i db) = Inl (HTTPException 404 ''Poll not found''))
   \<and> (sqlite_int i \<and> \<not> has_row i (comments db) \<longrightarrow>
      fst (get_comment i db) = Inl (HTTPException 404 ''Comment not found'')
      \<and> fst (update_comment i comment_update db) = Inl (HTTPException 404 ''Comment not found'')
      \<and> fst (delete_comment i db) = Inl (HTTPException 404 ''Comment not found''))
   \<and> (sqlite_int i \<and> \<not> has_row i (teams db) \<longrightarrow>
      fst (get_team i db) = Inl (HTTPException 404 ''Team not found'')
      \<and> fst (update_team i team_update db) = Inl (HTTPException 404 ''Team not found'')
      \<and> fst (delete_team i db) = Inl (HTTPException 404 ''Team not found''))
   \<and> (sqlite_int i \<and> \<not> has_row i (players db) \<longrightarrow>
      fst (get_player i db) = Inl (HTTPException 404 ''Player not found'')
      \<and> fst (update_player i player_update db) = Inl (HTTPException 404 ''Player not found'')
      \<and> fst (delete_player i db) = Inl (HTTPException 404 ''Player not found''))"
  by (simp add: get_poll_result get_comment_result get_team_result get_player_result
        delete_poll_result delete_comment_result delete_team_result delete_player_result
        update_poll_def update_comment_def update_team_def update_player_def
        response_model_fst update_poll_function_absent update_comment_function_absent
        update_team_function_absent update_player_function_absent lookup_None[THEN iffD2])

theorem missing_id_not_found_witness:
  "sqlite_int 2
   \<and> \<not> has_row 2 (polls scenario_db) \<and> \<not> has_row 2 (comments scenario_db)
   \<and> \<not> has_row 2 (teams scenario_db) \<and> \<not> has_row 2 (players scenario_db)
   \<and> fst (get_poll 2 scenario_db) = Inl (HTTPException 404 ''Poll not found'')
   \<and> fst (update_poll 2 \<lparr>pu_question = Some ''x''\<rparr> scenario_db) =
       Inl (HTTPException 404 ''Poll not found'')
   \<and> fst (delete_poll 2 scenario_db) = Inl (HTTPException 404 ''Poll not found'')
   \<and> fst (get_comment 2 scenario_db) = Inl (HTTPException 404 ''Comment not found'')
   \<and> fst (update_comment 2 \<lparr>cu_content = Some ''x''\<rparr> scenario_db) =
       Inl (HTTPException 404 ''Comment not found'')
   \<and> fst (delete_comment 2 scenario_db) = Inl (HTTPException 404 ''Comment not found'')
   \<and> fst (get_team 2 scenario_db) = Inl (HTTPException 404 ''Team not found'')
   \<and> fst (delete_team 2 scenario_db) = Inl (HTTPException 404 ''Team not found'')
   \<and> fst (get_player 2 scenario_db) = Inl (HTTPException 404 ''Player not found'')
   \<and> fst (delete_player 2 scenario_db) = Inl (HTTPException 404 ''Player not found'')"
  using missing_id_not_found[where i = 2 and db = scenario_db
      and poll_update = "\<lparr>pu_question = Some ''x''\<rparr>"
      and comment_update = "\<lparr>cu_content = Some ''x''\<rparr>"]
  by (simp add: scenario_has_row sqlite_int_small)

text \<open>
  C4. In every store reachable from a fresh database through the twenty routes, every
  poll has \<^verbatim>\<open>likes\<close> equal to 0, and no request changes the \<^verbatim>\<open>likes\<close> of a poll: a
  poll read before and after any one request shows the same value.
\<close>

theorem likes_always_zero:
  assumes "reachable db"
  shows "(\<forall>listed. fst (get_polls db) = Inr listed \<longrightarrow> (\<forall>p\<in>set listed. p_likes p = Some 0))
       \<and> (\<forall>req i before after.
             fst (get_poll i db) = Inr before \<and> fst (get_poll i (serve req db)) = Inr after
             \<longrightarrow> p_likes after = p_likes before)"
proof (intro conjI allI impI)
  fix listed
  assume "fst (get_polls db) = Inr listed"
  then have listed: "listed = map Poll_of_row (rows (polls db))"
    by (simp add: get_polls_result)
  show "\<forall>p\<in>set listed. p_likes p = Some 0"
    using reachable_likes_zero[OF assms]
    by (auto simp: listed Poll_of_row_def split: prod.splits)
next
  fix req i before after
  assume "fst (get_poll i db) = Inr before \<and> fst (get_poll i (serve req db)) = Inr after"
  then show "p_likes after = p_likes before"
    by (blast intro: serve_keeps_likes)
qed

theorem likes_always_zero_witness:
  "reachable scenario_db
   \<and> fst (get_polls scenario_db) =
       Inr [\<lparr>p_id = 1, p_question = ''Best sport?'', p_likes = Some 0\<rparr>]
   \<and> p_likes \<lparr>p_id = 1, p_question = ''Best sport?'', p_likes = Some 0\<rparr> = Some 0
   \<and> fst (get_poll 1 scenario_db) =
       Inr \<lparr>p_id = 1, p_question = ''Best sport?'', p_likes = Some 0\<rparr>
   \<and> fst (get_poll 1 (serve (PUT_poll 1 \<lparr>pu_question = Some ''Best sport ever?''\<rparr>)
                         scenario_db)) =
       Inr \<lparr>p_id = 1, p_question = ''Best sport ever?'', p_likes = Some 0\<rparr>
   \<and> p_likes \<lparr>p_id = 1, p_question = ''Best sport ever?'', p_likes = Some 0\<rparr> =
       p_likes \<lparr>p_id = 1, p_question = ''Best sport?'', p_likes = Some 0\<rparr>"
proof -
  note claim = likes_always_zero[OF reachable_scenario_db]
  have zero: "p_likes \<lparr>p_id = 1, p_question = ''Best sport?'', p_likes = Some 0\<rparr> = Some 0"
    using claim scenario_lists(1) by simp
  have after: "fst (get_poll 1 (serve (PUT_poll 1 \<lparr>pu_question = Some ''Best sport ever?''\<rparr>)
                                  scenario_db)) =
                 Inr \<lparr>p_id = 1, p_question = ''Best sport ever?'', p_likes = Some 0\<rparr>"
    using update_poll_merges(3)[OF sqlite_int_small(2) scenario_lookup(1),
        of "\<lparr>pu_question = Some ''Best sport ever?''\<rparr>"]
    by simp
  have kept: "p_likes \<lparr>p_id = 1, p_question = ''Best sport ever?'', p_likes = Some 0\<rparr> =
                p_likes \<lparr>p_id = 1, p_question = ''Best sport?'', p_likes = Some 0\<rparr>"
    using claim scenario_get(1) after by blast
  show ?thesis
    using reachable_scenario_db scenario_lists(1) zero scenario_get(1) after kept by blast
qed




text \<open>
  C6, as the specification states it: for every id, a get after a delete is answered 404.
  For the id \<open>2\<^sup>6\<^sup>3\<close> both the delete and the get raise \<^verbatim>\<open>OverflowError\<close>.
\<close>

theorem get_after_delete_out_of_range_counterexample:
  "fst (delete_poll 9223372036854775808 scenario_db) = Inl OverflowError
   \<and> fst (get_poll 9223372036854775808 (snd (delete_poll 9223372036854775808 scenario_db))) =
       Inl OverflowError"
  by (simp add: delete_poll_overflow get_poll_overflow sqlite_int_large)

text \<open>
  C6, amended. For every resource and every id that is a signed 64-bit value, a get that
  follows a delete of the same id is answered 404: the delete leaves no row with that id,
  and it fails exactly when there was none to begin with.
\<close>

theorem get_after_delete_not_found:
  assumes "sqlite_int i"
  shows "fst (get_poll i (snd (delete_poll i db))) = Inl (HTTPException 404 ''Poll not found'')
     \<and> \<not> has_row i (polls (snd (delete_poll i db)))
     \<and> (fst (delete_poll i db) = Inl (HTTPException 404 ''Poll not found'')
            \<longleftrightarrow> \<not> has_row i (polls db))
   \<and> fst (get_comment i (snd (delete_comment i db))) = Inl (HTTPException 404 ''Comment not found'')
     \<and> \<not> has_row i (comments (snd (delete_comment i db)))
     \<and> (fst (delete_comment i db) = Inl (HTTPException 404 ''Comment not found'')
            \<longleftrightarrow> \<not> has_row i (comments db))
   \<and> fst (get_team i (snd (delete_team i db))) = Inl (HTTPException 404 ''Team not found'')
     \<and> \<not> has_row i (teams (snd (delete_team i db)))
     \<and> (fst (delete_team i db) = Inl (HTTPException 404 ''Team not found'')
            \<longleftrightarrow> \<not> has_row i (teams db))
   \<and> fst (get_player i (snd (delete_player i db))) = Inl (HTTPException 404 ''Player not found'')
     \<and> \<not> has_row i (players (snd (delete_player i db)))
     \<and> (fst (delete_player i db) = Inl (HTTPException 404 ''Player not found'')
            \<longleftrightarrow> \<not> has_row i (players db))"
  using assms
  by (simp add: get_poll_result get_comment_result get_team_result get_player_result
        delete_poll_result delete_comment_result delete_team_result delete_player_result
        delete_poll_store delete_comment_store delete_team_store delete_player_store
        has_row_DELETE_executed lookup_None[THEN iffD2])

theorem get_after_delete_not_found_witness:
  "sqlite_int 1
   \<and> has_row 1 (polls scenario_db)
   \<and> fst (delete_poll 1 scenario_db) = Inr \<lparr>detail = ''Poll deleted successfully''\<rparr>
   \<and> fst (get_poll 1 (snd (delete_poll 1 scenario_db))) = Inl (HTTPException 404 ''Poll not found'')
   \<and> fst (get_comment 1 (snd (delete_comment 1 scenario_db))) =
       Inl (HTTPException 404 ''Comment not found'')
   \<and> fst (get_team 1 (snd (delete_team 1 scenario_db))) = Inl (HTTPException 404 ''Team not found'')
   \<and> fst (get_player 1 (snd (delete_player 1 scenario_db))) =
       Inl (HTTPException 404 ''Player not found'')"
  using get_after_delete_not_found[of 1 scenario_db] delete_poll_result[of 1 scenario_db]
  by (simp add: scenario_has_row sqlite_int_small)
text \<open>
  C7. The claim holds of the store and of what the function returns, and fails in what
  the route answers. On the example store \<^verbatim>\<open>PUT /polls/1\<close> with every field left
  \<^verbatim>\<open>None\<close> keeps the rows as they are and the function returns the stored record
  unchanged; the route, declared with \<^verbatim>\<open>response_model=PollUpdate\<close>, answers with the
  question alone.
\<close>

theorem empty_update_answer:
  "rows (polls (snd (update_poll 1 \<lparr>pu_question = None\<rparr> scenario_db))) = rows (polls scenario_db)
   \<and> fst (get_poll 1 (snd (update_poll 1 \<lparr>pu_question = None\<rparr> scenario_db))) =
       Inr \<lparr>p_id = 1, p_question = ''Best sport?'', p_likes = Some 0\<rparr>
   \<and> fst (update_poll_function 1 \<lparr>pu_question = None\<rparr> scenario_db) =
       Inr \<lparr>p_id = 1, p_question = ''Best sport?'', p_likes = Some 0\<rparr>
   \<and> fst (update_poll 1 \<lparr>pu_question = None\<rparr> scenario_db) =
       Inr \<lparr>pu_question = Some ''Best sport?''\<rparr>"
  using update_poll_merges[OF sqlite_int_small(2) scenario_lookup(1), of "\<lparr>pu_question = None\<rparr>"]
  by (simp add: PollUpdate_fields_def update_poll_def response_model_snd
        update_poll_function_present[OF sqlite_int_small(2) scenario_lookup(1)]
        rows_UPDATE scenario_rows)







text \<open>
  C10. The claim holds of the store and of what the function returns, and fails in what
  the route answers. On the example store \<^verbatim>\<open>PUT /comments/1\<close> leaves the stored
  \<^verbatim>\<open>poll_id\<close> at 999 and the function returns it; the route, declared with
  \<^verbatim>\<open>response_model=CommentUpdate\<close>, answers with the content alone.
\<close>

theorem comment_update_answer:
  "lookup 1 (comments (snd (update_comment 1 \<lparr>cu_content = Some ''bye''\<rparr> scenario_db))) =
     Some (Some 999, Some ''bye'')
   \<and> fst (update_comment_function 1 \<lparr>cu_content = Some ''bye''\<rparr> scenario_db) =
       Inr \<lparr>c_id = 1, c_poll_id = Some 999, c_content = Some ''bye''\<rparr>
   \<and> fst (update_comment 1 \<lparr>cu_content = Some ''bye''\<rparr> scenario_db) =
       Inr \<lparr>cu_content = Some ''bye''\<rparr>"
  using update_comment_merges[OF sqlite_int_small(2) scenario_lookup(2),
      of "\<lparr>cu_content = Some ''bye''\<rparr>"]
    update_comment_stored[OF sqlite_int_small(2) scenario_lookup(2),
      of "\<lparr>cu_content = Some ''bye''\<rparr>"]
  by (simp add: CommentUpdate_fields_def)
end
